theory Spec2Isabelle
  imports Complex_Main
begin

section \<open>JavaScript strings\<close>

text \<open>
  A JavaScript string is modelled as a \<open>string\<close> (a list of characters); one \<open>char\<close>
  stands for one code unit. The source only uses \<open>startsWith\<close>, \<open>endsWith\<close>,
  \<open>indexOf\<close>, \<open>lastIndexOf\<close>, \<open>slice\<close>, \<open>toLowerCase\<close> and concatenation.
\<close>

definition startsWith :: "string \<Rightarrow> string \<Rightarrow> bool" where
  "startsWith s p = (take (length p) s = p)"

definition endsWith :: "string \<Rightarrow> string \<Rightarrow> bool" where
  "endsWith s x = (length x \<le> length s \<and> drop (length s - length x) s = x)"

text \<open>\<open>s.indexOf(p)\<close>: the position of the first occurrence, \<open>-1\<close> when there is none.\<close>

fun indexOf :: "string \<Rightarrow> string \<Rightarrow> int" where
  "indexOf [] p = (if p = [] then 0 else -1)"
| "indexOf (c # cs) p =
     (if startsWith (c # cs) p then 0
      else (let r = indexOf cs p in if r = -1 then -1 else r + 1))"

text \<open>\<open>s.lastIndexOf(c)\<close> for a one-character pattern, \<open>-1\<close> when there is none.\<close>

fun lastIndexOf :: "string \<Rightarrow> char \<Rightarrow> int" where
  "lastIndexOf [] c = -1"
| "lastIndexOf (x # xs) c =
     (let r = lastIndexOf xs c in
      if r \<noteq> -1 then r + 1 else if x = c then 0 else -1)"

text \<open>\<open>s.slice(from)\<close> and \<open>s.slice(0, to)\<close> for indices that are not negative.\<close>

definition sliceFrom :: "string \<Rightarrow> int \<Rightarrow> string" where
  "sliceFrom s i = drop (nat i) s"

definition sliceTo :: "string \<Rightarrow> int \<Rightarrow> string" where
  "sliceTo s i = take (nat i) s"

text \<open>\<open>toLowerCase\<close> on the ASCII letters (header values are ASCII).\<close>

definition lowerChar :: "char \<Rightarrow> char" where
  "lowerChar c =
     (let n = of_char c :: nat in if 65 \<le> n \<and> n \<le> 90 then char_of (n + 32) else c)"

definition toLowerCase :: "string \<Rightarrow> string" where
  "toLowerCase s = map lowerChar s"

section \<open>JavaScript numbers\<close>

text \<open>
  A JavaScript number is a double: not a number, an infinity or a finite value. The
  arithmetic of doubles rounds, so the one product the source computes on numbers,
  \<open>interval * 1000\<close>, is not computed here: the multiplication is a parameter of the
  poller (\<open>multiply\<close>), and nothing is assumed of it.
\<close>

datatype number = NaN | NegativeInfinity | Finite real | PositiveInfinity

section \<open>Guessing the file name of a metadata file\<close>

record MetadataFileType =
  mediaType :: string
  extension :: string

definition METADATA_FILE_TYPES :: "MetadataFileType list" where
  "METADATA_FILE_TYPES =
     [\<lparr>mediaType = ''application/x-bittorrent'', extension = ''.torrent''\<rparr>,
      \<lparr>mediaType = ''application/x-nzb'', extension = ''.nzb''\<rparr>]"

text \<open>
  \<open>FILENAME_PROPERTY_REGEX = /filename=("([^"]+)"|([^"][^ ]+))/\<close>.
  \<open>filenameValue s\<close> matches the part after \<open>filename=\<close> at the start of \<open>s\<close> and
  returns the capture groups 2 and 3. The first alternative needs an opening quote, a
  non-empty run of characters other than the quote and the closing quote; the second a
  character other than the quote followed by a non-empty, greedy run of characters other
  than the space. The character \<open>CHR 0x22\<close> is the double quote.
\<close>

definition filenameValue :: "string \<Rightarrow> (string option \<times> string option) option" where
  "filenameValue s =
     (case s of
        [] \<Rightarrow> None
      | c # rest \<Rightarrow>
          if c = CHR 0x22 then
            (let g = takeWhile (\<lambda>x. x \<noteq> CHR 0x22) rest in
             if g \<noteq> [] \<and> length g < length rest then Some (Some g, None) else None)
          else
            (let g = takeWhile (\<lambda>x. x \<noteq> CHR '' '') rest in
             if g \<noteq> [] then Some (None, Some (c # g)) else None))"

text \<open>
  \<open>FILENAME_PROPERTY_REGEX.exec(s)\<close>: the leftmost position where the whole pattern
  matches; \<open>None\<close> is the \<open>null\<close> of no match.
\<close>

fun FILENAME_PROPERTY_REGEX_exec :: "string \<Rightarrow> (string option \<times> string option) option" where
  "FILENAME_PROPERTY_REGEX_exec [] = None"
| "FILENAME_PROPERTY_REGEX_exec (c # cs) =
     (if startsWith (c # cs) ''filename='' then
        (case filenameValue (drop 9 (c # cs)) of
           Some groups \<Rightarrow> Some groups
         | None \<Rightarrow> FILENAME_PROPERTY_REGEX_exec cs)
      else FILENAME_PROPERTY_REGEX_exec cs)"

text \<open>A string is truthy when it is defined and not empty.\<close>

definition truthy :: "string option \<Rightarrow> bool" where
  "truthy v = (case v of None \<Rightarrow> False | Some s \<Rightarrow> s \<noteq> [])"

text \<open>\<open>a || b\<close> on values that are a string or \<open>undefined\<close>.\<close>

definition orElse :: "string option \<Rightarrow> string option \<Rightarrow> string option" where
  "orElse a b = (if truthy a then a else b)"

text \<open>
  \<open>guessFileName\<close> (taskPoller.ts); \<open>headers\<close> is the \<open>Record<string, string>\<close> of
  the response, a map from header names to values.
\<close>

definition guessFileName :: "string \<Rightarrow> (string \<rightharpoonup> string) \<Rightarrow> MetadataFileType \<Rightarrow> string" where
  "guessFileName urlWithoutQuery headers metadataFileType =
     (let contentDisposition = headers ''content-disposition'';
          maybeFilename =
            (if truthy contentDisposition \<and> indexOf (the contentDisposition) ''filename='' \<noteq> -1 then
               (let regexMatch = FILENAME_PROPERTY_REGEX_exec (the contentDisposition) in
                orElse (case regexMatch of None \<Rightarrow> None | Some (g2, g3) \<Rightarrow> orElse g2 g3) None)
             else Some (sliceFrom urlWithoutQuery (lastIndexOf urlWithoutQuery CHR ''/'' + 1)));
          maybeFilename' =
            (if maybeFilename = None \<or> length (the maybeFilename) = 0 then ''download''
             else the maybeFilename)
      in if endsWith maybeFilename' (extension metadataFileType) then maybeFilename'
         else maybeFilename' @ extension metadataFileType)"

text \<open>\<open>guessTorrentFileName\<close> (the actions module) has the same body.\<close>

definition guessTorrentFileName :: "string \<Rightarrow> (string \<rightharpoonup> string) \<Rightarrow> MetadataFileType \<Rightarrow> string" where
  "guessTorrentFileName urlWithoutQuery headers metadataFileType =
     (let contentDisposition = headers ''content-disposition'';
          maybeFilename =
            (if truthy contentDisposition \<and> indexOf (the contentDisposition) ''filename='' \<noteq> -1 then
               (let regexMatch = FILENAME_PROPERTY_REGEX_exec (the contentDisposition) in
                orElse (case regexMatch of None \<Rightarrow> None | Some (g2, g3) \<Rightarrow> orElse g2 g3) None)
             else Some (sliceFrom urlWithoutQuery (lastIndexOf urlWithoutQuery CHR ''/'' + 1)));
          maybeFilename' =
            (if maybeFilename = None \<or> length (the maybeFilename) = 0 then ''download''
             else the maybeFilename)
      in if endsWith maybeFilename' (extension metadataFileType) then maybeFilename'
         else maybeFilename' @ extension metadataFileType)"


definition filenameProperty :: "string \<Rightarrow> string option" where
  "filenameProperty contentDisposition =
     orElse (case FILENAME_PROPERTY_REGEX_exec contentDisposition of
               None \<Rightarrow> None
             | Some (g2, g3) \<Rightarrow> orElse g2 g3) None"





subsection \<open>Properties of the string functions\<close>


lemma takeWhile_neq_all: "c \<notin> set xs \<Longrightarrow> takeWhile (\<lambda>x. x \<noteq> c) xs = xs"
  by (induction xs) auto









subsection \<open>What the regular expression captures\<close>

lemma FILENAME_PROPERTY_REGEX_exec_skip:
  "CHR ''f'' \<notin> set pre \<Longrightarrow>
   FILENAME_PROPERTY_REGEX_exec (pre @ s) = FILENAME_PROPERTY_REGEX_exec s"
  by (induction pre) (auto simp: startsWith_def)

lemma filenameValue_quoted:
  "n \<noteq> [] \<Longrightarrow> CHR 0x22 \<notin> set n \<Longrightarrow>
   filenameValue (CHR 0x22 # n @ CHR 0x22 # rest) = Some (Some n, None)"
  by (simp add: filenameValue_def takeWhile_tail takeWhile_neq_all Let_def)

lemma filenameValue_unquoted:
  "c \<noteq> CHR 0x22 \<Longrightarrow> v \<noteq> [] \<Longrightarrow> CHR '' '' \<notin> set v \<Longrightarrow> rest = [] \<or> hd rest = CHR '' '' \<Longrightarrow>
   filenameValue (c # v @ rest) = Some (None, Some (c # v))"
  by (cases rest) (auto simp: filenameValue_def takeWhile_tail takeWhile_neq_all Let_def)

text \<open>
  A quoted value \<open>filename="n"\<close> is captured without its quotes, an unquoted one up to
  the next space (here after a prefix such as \<open>attachment; \<close> that has no letter f).
\<close>

lemma filenameProperty_quoted:
  assumes "CHR ''f'' \<notin> set pre" "n \<noteq> []" "CHR 0x22 \<notin> set n"
  shows "filenameProperty (pre @ ''filename='' @ CHR 0x22 # n @ CHR 0x22 # rest) = Some n"
  using assms
  by (simp add: filenameProperty_def FILENAME_PROPERTY_REGEX_exec_skip startsWith_def
      filenameValue_quoted orElse_def truthy_def)

lemma filenameProperty_unquoted:
  assumes "CHR ''f'' \<notin> set pre" "c \<noteq> CHR 0x22" "v \<noteq> []" "CHR '' '' \<notin> set v"
    "rest = [] \<or> hd rest = CHR '' ''"
  shows "filenameProperty (pre @ ''filename='' @ c # v @ rest) = Some (c # v)"
  using assms
  by (simp add: filenameProperty_def FILENAME_PROPERTY_REGEX_exec_skip startsWith_def
      filenameValue_unquoted orElse_def truthy_def)

lemma filenameProperty_quoted_example:
  "filenameProperty (''attachment; '' @ ''filename='' @ CHR 0x22 # ''my file.nzb'' @ CHR 0x22 # ''; size=3'')
     = Some ''my file.nzb''"
  by (rule filenameProperty_quoted) simp_all








subsection \<open>The guessed file name\<close>
















section \<open>Promises\<close>

text \<open>
  A value that is thrown or that a promise rejects with: \<open>undefined\<close>, a string, or an
  object. Of an object the source reads whether it is an instance of \<open>Error\<close>, its
  \<open>message\<close> and the \<open>status\<close> of its \<open>response\<close> (\<open>None\<close> when it has no response).
\<close>

datatype js_value =
    JsUndefined
  | JsString string
  | JsObject bool "string option" "int option"

definition js_truthy :: "js_value \<Rightarrow> bool" where
  "js_truthy v = (case v of JsUndefined \<Rightarrow> False | JsString s \<Rightarrow> s \<noteq> [] | JsObject _ _ _ \<Rightarrow> True)"

definition isErrorInstance :: "js_value \<Rightarrow> bool" where
  "isErrorInstance v = (case v of JsObject b _ _ \<Rightarrow> b | _ \<Rightarrow> False)"

definition messageOf :: "js_value \<Rightarrow> string option" where
  "messageOf v = (case v of JsObject _ m _ \<Rightarrow> m | _ \<Rightarrow> None)"

definition responseStatusOf :: "js_value \<Rightarrow> int option" where
  "responseStatusOf v = (case v of JsObject _ _ st \<Rightarrow> st | _ \<Rightarrow> None)"

text \<open>\<open>new Error\<close>: an instance of \<open>Error\<close> with the empty message and no response.\<close>

definition newError :: js_value where
  "newError = JsObject True (Some []) None"

text \<open>
  A promise is modelled by the outcome it settles with. A promise whose callbacks change
  a state (the browser storage, the notifications shown, the requests sent, the variables
  of a closure) is a function from the state to the outcome and the new state;
  \<open>thenP\<close> and \<open>catchP\<close> are \<open>.then(f)\<close> and \<open>.catch(h)\<close>.
\<close>

datatype 'a outcome = Resolved 'a | Rejected js_value

type_synonym ('a, 'w) promise = "'w \<Rightarrow> 'a outcome \<times> 'w"

definition resolve :: "'a \<Rightarrow> ('a, 'w) promise" where
  "resolve a = (\<lambda>w. (Resolved a, w))"

definition reject :: "js_value \<Rightarrow> ('a, 'w) promise" where
  "reject e = (\<lambda>w. (Rejected e, w))"

definition settled :: "'a outcome \<Rightarrow> ('a, 'w) promise" where
  "settled out = (\<lambda>w. (out, w))"

definition thenP :: "('a, 'w) promise \<Rightarrow> ('a \<Rightarrow> ('b, 'w) promise) \<Rightarrow> ('b, 'w) promise" where
  "thenP p f = (\<lambda>w. case p w of (Resolved a, w') \<Rightarrow> f a w' | (Rejected e, w') \<Rightarrow> (Rejected e, w'))"

definition catchP :: "('a, 'w) promise \<Rightarrow> (js_value \<Rightarrow> ('a, 'w) promise) \<Rightarrow> ('a, 'w) promise" where
  "catchP p h = (\<lambda>w. case p w of (Resolved a, w') \<Rightarrow> (Resolved a, w') | (Rejected e, w') \<Rightarrow> h e w')"

text \<open>\<open>Promise.all([p, q])\<close>: both have been started; it rejects when one of them does.\<close>

definition promiseAll2 :: "('a, 'w) promise \<Rightarrow> ('b, 'w) promise \<Rightarrow> ('a \<times> 'b, 'w) promise" where
  "promiseAll2 p q = thenP p (\<lambda>a. thenP q (\<lambda>b. resolve (a, b)))"

section \<open>partitionPromises\<close>

record 'a accumulator =
  resolved :: "'a list"
  rejected :: "js_value list"

text \<open>
  \<open>next\<close> of \<open>partitionPromises\<close>. The state that the callbacks change is the
  accumulator of the closure; \<open>queue.shift()\<close> takes the first promise of the queue.
\<close>

fun partitionNext :: "'a outcome list \<Rightarrow> ('a accumulator, 'a accumulator) promise" where
  "partitionNext [] = (\<lambda>accumulator. resolve accumulator accumulator)"
| "partitionNext (p # queue) =
     thenP
       (catchP
          (thenP (settled p)
             (\<lambda>result accumulator.
                (Resolved (), accumulator\<lparr>resolved := resolved accumulator @ [result]\<rparr>)))
          (\<lambda>e accumulator.
             (Resolved (),
              accumulator\<lparr>rejected := rejected accumulator @
                 [if js_truthy e \<and> isErrorInstance e then e else newError]\<rparr>)))
       (\<lambda>_. partitionNext queue)"

definition partitionPromises :: "'a outcome list \<Rightarrow> 'a accumulator outcome" where
  "partitionPromises promises = fst (partitionNext promises \<lparr>resolved = [], rejected = []\<rparr>)"

text \<open>
  What the claim says of the result: the values of the promises that resolved and the
  errors of those that rejected, each in the order of the list, and one promise handled
  after the other from the left.
\<close>

fun spec_resolvedValues :: "'a outcome list \<Rightarrow> 'a list" where
  "spec_resolvedValues [] = []"
| "spec_resolvedValues (Resolved v # ps) = v # spec_resolvedValues ps"
| "spec_resolvedValues (Rejected e # ps) = spec_resolvedValues ps"

fun spec_rejectionErrors :: "'a outcome list \<Rightarrow> js_value list" where
  "spec_rejectionErrors [] = []"
| "spec_rejectionErrors (Resolved v # ps) = spec_rejectionErrors ps"
| "spec_rejectionErrors (Rejected e # ps) =
     (if isErrorInstance e then e else newError) # spec_rejectionErrors ps"

definition spec_settle :: "'a accumulator \<Rightarrow> 'a outcome \<Rightarrow> 'a accumulator" where
  "spec_settle acc p =
     (case p of
        Resolved v \<Rightarrow> acc\<lparr>resolved := resolved acc @ [v]\<rparr>
      | Rejected e \<Rightarrow> acc\<lparr>rejected := rejected acc @ [if isErrorInstance e then e else newError]\<rparr>)"

lemma isErrorInstance_truthy: "isErrorInstance e \<Longrightarrow> js_truthy e"
  by (cases e) (simp_all add: isErrorInstance_def js_truthy_def)

lemma partitionNext_foldl:
  "partitionNext ps acc = (Resolved (foldl spec_settle acc ps), foldl spec_settle acc ps)"
proof (induction ps arbitrary: acc)
  case Nil
  then show ?case by (simp add: resolve_def)
next
  case (Cons p ps)
  show ?case
  proof (cases p)
    case (Resolved v)
    then show ?thesis
      by (simp add: thenP_def catchP_def settled_def spec_settle_def Cons.IH)
  next
    case (Rejected e)
    then show ?thesis
      using isErrorInstance_truthy[of e]
      by (auto simp add: thenP_def catchP_def settled_def spec_settle_def Cons.IH)
  qed
qed

lemma foldl_settle_resolved:
  "resolved (foldl spec_settle acc ps) = resolved acc @ spec_resolvedValues ps"
  by (induction ps arbitrary: acc rule: spec_resolvedValues.induct) (simp_all add: spec_settle_def)

lemma foldl_settle_rejected:
  "rejected (foldl spec_settle acc ps) = rejected acc @ spec_rejectionErrors ps"
  by (induction ps arbitrary: acc rule: spec_rejectionErrors.induct) (simp_all add: spec_settle_def)

lemma foldl_settle_more: "accumulator.more (foldl spec_settle acc ps) = accumulator.more acc"
  by (induction ps arbitrary: acc) (simp_all add: spec_settle_def split: outcome.splits)

lemma length_values_errors:
  "length (spec_resolvedValues ps) + length (spec_rejectionErrors ps) = length ps"
  by (induction ps rule: spec_resolvedValues.induct) simp_all

lemma partitionPromises_result:
  "partitionPromises ps =
     Resolved \<lparr>resolved = spec_resolvedValues ps, rejected = spec_rejectionErrors ps\<rparr>"
  by (simp add: partitionPromises_def partitionNext_foldl foldl_settle_resolved
      foldl_settle_rejected foldl_settle_more accumulator.equality)

text \<open>
  Claim C10. For every list of promises (each given by the outcome it settles with),
  \<open>partitionPromises\<close> handles them one after the other in the order of the list (the
  accumulator is the left fold of the list), never rejects, and resolves with an
  accumulator whose \<open>resolved\<close> and \<open>rejected\<close> lists together have the length of the
  input and keep the order of the input; a rejection reason that is not an instance of
  \<open>Error\<close> is replaced by a new \<open>Error\<close>.
\<close>

theorem partitionPromises_partitions_in_order:
  "partitionNext ps acc = (Resolved (foldl spec_settle acc ps), foldl spec_settle acc ps) \<and>
   (\<forall>e. partitionPromises ps \<noteq> Rejected e) \<and>
   partitionPromises ps =
     Resolved \<lparr>resolved = spec_resolvedValues ps, rejected = spec_rejectionErrors ps\<rparr> \<and>
   length (spec_resolvedValues ps) + length (spec_rejectionErrors ps) = length ps \<and>
   spec_rejectionErrors (Rejected e # ps) =
     (if isErrorInstance e then e else newError) # spec_rejectionErrors ps"
  by (simp add: partitionNext_foldl partitionPromises_result length_values_errors)

section \<open>The remote API and the retry on a permission failure\<close>

text \<open>
  What a remote call resolves with: a connection failure (its \<open>type\<close> and its
  \<open>failureMessage\<close>), a successful response with its data, or an unsuccessful response
  with the code of its error.
\<close>

datatype 'd response =
    ConnectionFailure string string
  | Success 'd
  | Failure int

definition isConnectionFailure :: "'d response \<Rightarrow> bool" where
  "isConnectionFailure r = (case r of ConnectionFailure _ _ \<Rightarrow> True | _ \<Rightarrow> False)"

definition success :: "'d response \<Rightarrow> bool" where
  "success r = (case r of Success _ \<Rightarrow> True | _ \<Rightarrow> False)"

definition errorCode :: "'d response \<Rightarrow> int option" where
  "errorCode r = (case r of Failure code \<Rightarrow> Some code | _ \<Rightarrow> None)"

definition NO_PERMISSIONS_ERROR_CODE :: int where
  "NO_PERMISSIONS_ERROR_CODE = 105"

text \<open>
  \<open>wrapInNoPermissionsRetry(fn)\<close>. The wrapper is polymorphic in the \<open>api\<close> object and
  in the state the calls change; \<open>Auth_Logout api\<close> is its \<open>api.Auth.Logout()\<close>.
\<close>

definition wrapInNoPermissionsRetry ::
  "('api \<Rightarrow> 'w \<Rightarrow> 'w) \<Rightarrow> ('api \<Rightarrow> 'args \<Rightarrow> ('d response, 'w) promise) \<Rightarrow>
   'api \<Rightarrow> 'args \<Rightarrow> ('d response, 'w) promise" where
  "wrapInNoPermissionsRetry Auth_Logout fn =
     (\<lambda>api args.
        thenP (fn api args)
          (\<lambda>result.
             if \<not> isConnectionFailure result \<and> \<not> success result \<and>
                errorCode result = Some NO_PERMISSIONS_ERROR_CODE
             then (\<lambda>w. fn api args (Auth_Logout api w))
             else resolve result))"



text \<open>
  The first result that makes the wrapper retry, in the words of the claim: a response
  that is no connection failure, is unsuccessful and has the error code 105.
\<close>

definition spec_noPermissions :: "'d response outcome \<Rightarrow> bool" where
  "spec_noPermissions out =
     (case out of
        Resolved result \<Rightarrow>
          \<not> isConnectionFailure result \<and> \<not> success result \<and> errorCode result = Some 105
      | Rejected e \<Rightarrow> False)"

subsection \<open>The client, the requests and the state of the extension\<close>

record Task =
  taskId :: string
  title :: string
  status :: string

record TaskListRequest =
  offset :: int
  limit :: int
  additional :: "string list"
  timeout :: "int option"

record Blob =
  blobParts :: string
  blobType :: string

record FormFile =
  content :: Blob
  filename :: string

text \<open>The field \<open>file\<close> of the request is named \<open>files\<close> here (\<open>file\<close> is a keyword).\<close>

record TaskCreateRequest =
  files :: "FormFile list"
  uri :: "string list"
  destination :: "string option"

datatype apiCall =
    Auth_Logout_call
  | Task_List_call TaskListRequest
  | Task_Create_call TaskCreateRequest

text \<open>
  The API client is an external collaborator: its calls are functions on a state \<open>'r\<close>
  of its own (the session, the server), of which nothing is assumed.
\<close>

record 'r ApiClient =
  Auth_Logout :: "'r \<Rightarrow> 'r"
  Task_List :: "TaskListRequest \<Rightarrow> 'r \<Rightarrow> Task list response outcome \<times> 'r"
  Task_Create :: "TaskCreateRequest \<Rightarrow> 'r \<Rightarrow> unit response outcome \<times> 'r"

datatype failureReason = MissingConfig | FailureMessage string

record CachedTasks =
  tasks :: "Task list"
  taskFetchFailureReason :: "failureReason option"
  tasksLastCompletedFetchTimestamp :: "int option"
  tasksLastInitiatedFetchTimestamp :: "int option"

text \<open>
  A \<open>Partial<CachedTasks>\<close> object is the list of the properties it sets, a later
  property overriding an earlier one (so that a spread is an append).
\<close>

datatype cachedTasksEntry =
    Set_tasks "Task list"
  | Set_taskFetchFailureReason "failureReason option"
  | Set_tasksLastCompletedFetchTimestamp "int option"
  | Set_tasksLastInitiatedFetchTimestamp "int option"

record Notification =
  shownTitle :: string
  shownMessage :: "string option"
  shownType :: "string option"
  shownId :: nat

text \<open>
  The state the extension's code changes: the state of the client, the remote calls made
  so far, the browser's local storage and the notifications shown so far.
\<close>

record 'r world =
  remote :: 'r
  calls :: "apiCall list"
  storage :: CachedTasks
  notifications :: "Notification list"

definition api_Auth_Logout :: "'r ApiClient \<Rightarrow> 'r world \<Rightarrow> 'r world" where
  "api_Auth_Logout api w =
     w\<lparr>remote := Auth_Logout api (remote w), calls := calls w @ [Auth_Logout_call]\<rparr>"

definition api_Task_List :: "'r ApiClient \<Rightarrow> TaskListRequest \<Rightarrow> (Task list response, 'r world) promise" where
  "api_Task_List api options w =
     (case Task_List api options (remote w) of
        (out, r) \<Rightarrow> (out, w\<lparr>remote := r, calls := calls w @ [Task_List_call options]\<rparr>))"

definition api_Task_Create :: "'r ApiClient \<Rightarrow> TaskCreateRequest \<Rightarrow> (unit response, 'r world) promise" where
  "api_Task_Create api options w =
     (case Task_Create api options (remote w) of
        (out, r) \<Rightarrow> (out, w\<lparr>remote := r, calls := calls w @ [Task_Create_call options]\<rparr>))"

definition setEntry :: "CachedTasks \<Rightarrow> cachedTasksEntry \<Rightarrow> CachedTasks" where
  "setEntry c e =
     (case e of
        Set_tasks v \<Rightarrow> c\<lparr>tasks := v\<rparr>
      | Set_taskFetchFailureReason v \<Rightarrow> c\<lparr>taskFetchFailureReason := v\<rparr>
      | Set_tasksLastCompletedFetchTimestamp v \<Rightarrow> c\<lparr>tasksLastCompletedFetchTimestamp := v\<rparr>
      | Set_tasksLastInitiatedFetchTimestamp v \<Rightarrow> c\<lparr>tasksLastInitiatedFetchTimestamp := v\<rparr>)"

text \<open>
  \<open>browser.storage.local.set(items)\<close> overwrites the given keys. The browser is an
  external collaborator; its write is taken to succeed.
\<close>

definition storage_local_set :: "cachedTasksEntry list \<Rightarrow> (unit, 'r world) promise" where
  "storage_local_set items w = (Resolved (), w\<lparr>storage := foldl setEntry (storage w) items\<rparr>)"

text \<open>
  The imported functions and constants whose modules are not among the sources are
  parameters of the model.
\<close>

record Imports =
  errorMessageFromCode :: "int \<Rightarrow> string \<Rightarrow> string"
  errorMessageFromConnectionFailure :: "string \<Rightarrow> string \<Rightarrow> string"
  Task_API_NAME :: string
  protocols_ALL_DOWNLOADABLE_PROTOCOLS :: "string list"
  protocols_AUTO_DOWNLOAD_TORRENT_FILE_PROTOCOLS :: "string list"
  parseQueryString_dn :: "string \<Rightarrow> string option"

definition TASK_POLL_OPTIONS :: TaskListRequest where
  "TASK_POLL_OPTIONS =
     \<lparr>offset = 0, limit = -1, additional = [''transfer'', ''detail''], timeout = Some 20000\<rparr>"

definition doTaskPoll :: "'r ApiClient \<Rightarrow> unit \<Rightarrow> (Task list response, 'r world) promise" where
  "doTaskPoll =
     wrapInNoPermissionsRetry api_Auth_Logout
       (\<lambda>api _. api_Task_List api
          \<lparr>offset = 0, limit = -1, additional = [''transfer'', ''detail''], timeout = Some 20000\<rparr>)"

definition doCreateTask :: "'r ApiClient \<Rightarrow> TaskCreateRequest \<Rightarrow> (unit response, 'r world) promise" where
  "doCreateTask =
     wrapInNoPermissionsRetry api_Auth_Logout (\<lambda>api options. api_Task_Create api options)"

subsection \<open>The wrapper retries once\<close>

lemma retry_condition:
  "(\<not> isConnectionFailure result \<and> \<not> success result \<and>
    errorCode result = Some NO_PERMISSIONS_ERROR_CODE) = (result = Failure 105)"
  by (cases result)
     (auto simp: isConnectionFailure_def success_def errorCode_def NO_PERMISSIONS_ERROR_CODE_def)

lemma spec_noPermissions_iff: "spec_noPermissions out = (out = Resolved (Failure 105))"
  by (cases out)
     (simp_all add: spec_noPermissions_def retry_condition[unfolded NO_PERMISSIONS_ERROR_CODE_def])

lemma wrapInNoPermissionsRetry_result:
  "wrapInNoPermissionsRetry logout fn api args w =
     (if spec_noPermissions (fst (fn api args w))
      then fn api args (logout api (snd (fn api args w)))
      else fn api args w)"
  unfolding wrapInNoPermissionsRetry_def retry_condition spec_noPermissions_iff
  by (cases "fn api args w") (auto simp: thenP_def resolve_def split: outcome.splits)


lemma api_Task_List_calls:
  "calls (snd (api_Task_List api options w)) = calls w @ [Task_List_call options]"
  by (simp add: api_Task_List_def split: prod.splits)

lemma api_Task_Create_calls:
  "calls (snd (api_Task_Create api options w)) = calls w @ [Task_Create_call options]"
  by (simp add: api_Task_Create_def split: prod.splits)

lemma api_Auth_Logout_calls: "calls (api_Auth_Logout api w) = calls w @ [Auth_Logout_call]"
  by (simp add: api_Auth_Logout_def)

lemma doTaskPoll_calls:
  "calls (snd (doTaskPoll api () w)) =
     calls w @
       (if spec_noPermissions (fst (api_Task_List api TASK_POLL_OPTIONS w))
        then [Task_List_call TASK_POLL_OPTIONS, Auth_Logout_call, Task_List_call TASK_POLL_OPTIONS]
        else [Task_List_call TASK_POLL_OPTIONS])"
  unfolding doTaskPoll_def wrapInNoPermissionsRetry_result TASK_POLL_OPTIONS_def[symmetric]
  by (simp add: api_Task_List_calls api_Auth_Logout_calls)

lemma doCreateTask_calls:
  "calls (snd (doCreateTask api options w)) =
     calls w @
       (if spec_noPermissions (fst (api_Task_Create api options w))
        then [Task_Create_call options, Auth_Logout_call, Task_Create_call options]
        else [Task_Create_call options])"
  unfolding doCreateTask_def wrapInNoPermissionsRetry_result
  by (simp add: api_Task_Create_calls api_Auth_Logout_calls)


section \<open>Polling the tasks into the cache\<close>

text \<open>
  \<open>pollTasks\<close> of the actions module that wraps its remote calls. \<open>Date.now()\<close> is read
  from the environment: \<open>nowInitiated\<close> and \<open>nowCompleted\<close> are its two readings. The
  handler of a rejection only writes to the console.
\<close>

definition pollTasks :: "Imports \<Rightarrow> 'r ApiClient \<Rightarrow> int \<Rightarrow> int \<Rightarrow> (unit, 'r world) promise" where
  "pollTasks imports api nowInitiated nowCompleted =
     (let cachedTasksInit = [Set_tasksLastInitiatedFetchTimestamp (Some nowInitiated)] in
      catchP
        (thenP (promiseAll2 (storage_local_set cachedTasksInit) (doTaskPoll api ()))
           (\<lambda>(_, response).
              let setCachedTasksResponse =
                    (\<lambda>cachedTasks. storage_local_set
                       (Set_tasksLastCompletedFetchTimestamp (Some nowCompleted) # cachedTasks))
              in case response of
                   ConnectionFailure type msg \<Rightarrow>
                     if type = ''missing-config'' then
                       setCachedTasksResponse [Set_taskFetchFailureReason (Some MissingConfig)]
                     else
                       setCachedTasksResponse
                         [Set_taskFetchFailureReason
                            (Some (FailureMessage (errorMessageFromConnectionFailure imports type msg)))]
                 | Success data \<Rightarrow>
                     setCachedTasksResponse [Set_tasks data, Set_taskFetchFailureReason None]
                 | Failure code \<Rightarrow>
                     setCachedTasksResponse
                       [Set_taskFetchFailureReason
                          (Some (FailureMessage (errorMessageFromCode imports code ''DownloadStation.Task'')))]))
        (\<lambda>error. resolve ()))"

text \<open>
  The failure message of an error a poll rejects with: the same three-way test stands in
  the \<open>catch\<close> handlers of the earlier \<open>pollTasks\<close> and of \<open>TaskPoller.tryPoll\<close>.
\<close>

definition failureMessageOf :: "js_value \<Rightarrow> string" where
  "failureMessageOf error =
     (if js_truthy error \<and> responseStatusOf error = Some 400 then
        ''Connection failure (likely wrong protocol).''
      else if js_truthy error \<and> messageOf error = Some ''Network Error'' then
        ''Connection failure (likely incorrect hostname/port or no internet connection).''
      else ''Unknown error.'')"

text \<open>
  \<open>pollTasks\<close> of the earlier actions module, which calls \<open>Task.List\<close> without the
  wrapper and caches a failure message when the call rejects.
\<close>

definition pollTasks_earlier :: "Imports \<Rightarrow> 'r ApiClient \<Rightarrow> int \<Rightarrow> int \<Rightarrow> (unit, 'r world) promise" where
  "pollTasks_earlier imports api nowInitiated nowCompleted =
     (let cachedTasks = [Set_tasksLastInitiatedFetchTimestamp (Some nowInitiated)] in
      catchP
        (thenP
           (promiseAll2 (storage_local_set cachedTasks)
              (api_Task_List api
                 \<lparr>offset = 0, limit = -1, additional = [''transfer''], timeout = None\<rparr>))
           (\<lambda>(_, response).
              let cachedTasks = [Set_tasksLastCompletedFetchTimestamp (Some nowCompleted)];
                  cachedTasks =
                    (case response of
                       ConnectionFailure type msg \<Rightarrow>
                         if type = ''missing-config'' then
                           cachedTasks @ [Set_taskFetchFailureReason (Some MissingConfig)]
                         else
                           cachedTasks @ [Set_taskFetchFailureReason (Some (FailureMessage msg))]
                     | Success data \<Rightarrow>
                         cachedTasks @ [Set_tasks data, Set_taskFetchFailureReason None]
                     | Failure code \<Rightarrow>
                         cachedTasks @
                           [Set_taskFetchFailureReason
                              (Some (FailureMessage
                                 (errorMessageFromCode imports code (Task_API_NAME imports))))])
              in storage_local_set cachedTasks))
        (\<lambda>error.
           let failureMessage = failureMessageOf error;
               cachedTasks =
                 [Set_taskFetchFailureReason (Some (FailureMessage failureMessage)),
                  Set_tasksLastCompletedFetchTimestamp (Some nowCompleted)]
           in storage_local_set cachedTasks))"

text \<open>The state \<open>clearCachedTasks\<close> stores, and inputs for the examples.\<close>

definition emptyState :: CachedTasks where
  "emptyState =
     \<lparr>tasks = [], taskFetchFailureReason = None, tasksLastCompletedFetchTimestamp = None,
      tasksLastInitiatedFetchTimestamp = None\<rparr>"

definition rejectingClient :: "unit ApiClient" where
  "rejectingClient =
     \<lparr>Auth_Logout = (\<lambda>r. r),
      Task_List = (\<lambda>options r. (Rejected (JsObject True (Some ''Network Error'') None), r)),
      Task_Create = (\<lambda>options r. (Rejected (JsObject True (Some ''Network Error'') None), r))\<rparr>"

definition someImports :: Imports where
  "someImports =
     \<lparr>errorMessageFromCode = (\<lambda>code api. ''error''),
      errorMessageFromConnectionFailure = (\<lambda>type msg. msg),
      Task_API_NAME = ''SYNO.DownloadStation.Task'',
      protocols_ALL_DOWNLOADABLE_PROTOCOLS =
        [''http'', ''https'', ''ftp'', ''ftps'', ''magnet'', ''thunder'', ''flashget'', ''qqdl'',
         ''ed2k''],
      protocols_AUTO_DOWNLOAD_TORRENT_FILE_PROTOCOLS = [''http'', ''https''],
      parseQueryString_dn = (\<lambda>url. None)\<rparr>"

definition clearedWorld :: "'r \<Rightarrow> 'r world" where
  "clearedWorld r = \<lparr>remote = r, calls = [], storage = emptyState, notifications = []\<rparr>"

text \<open>The storage after the write of the initiated-fetch timestamp.\<close>

definition initiated :: "int \<Rightarrow> 'r world \<Rightarrow> 'r world" where
  "initiated t w = w\<lparr>storage := (storage w)\<lparr>tasksLastInitiatedFetchTimestamp := Some t\<rparr>\<rparr>"

text \<open>The snapshot that the claim says a resolved \<open>Task.List\<close> call leaves in the cache.\<close>

definition spec_snapshot :: "Imports \<Rightarrow> Task list response \<Rightarrow> int \<Rightarrow> CachedTasks \<Rightarrow> CachedTasks" where
  "spec_snapshot imports response t c =
     (case response of
        Success data \<Rightarrow>
          c\<lparr>tasks := data, taskFetchFailureReason := None, tasksLastCompletedFetchTimestamp := Some t\<rparr>
      | ConnectionFailure type msg \<Rightarrow>
          c\<lparr>taskFetchFailureReason :=
               Some (if type = ''missing-config'' then MissingConfig
                     else FailureMessage (errorMessageFromConnectionFailure imports type msg)),
            tasksLastCompletedFetchTimestamp := Some t\<rparr>
      | Failure code \<Rightarrow>
          c\<lparr>taskFetchFailureReason :=
               Some (FailureMessage (errorMessageFromCode imports code ''DownloadStation.Task'')),
            tasksLastCompletedFetchTimestamp := Some t\<rparr>)"

subsection \<open>What a poll writes\<close>

lemma api_Task_List_storage: "storage (snd (api_Task_List api options w)) = storage w"
  by (simp add: api_Task_List_def split: prod.splits)

lemma api_Task_List_notifications: "notifications (snd (api_Task_List api options w)) = notifications w"
  by (simp add: api_Task_List_def split: prod.splits)

lemma doTaskPoll_storage: "storage (snd (doTaskPoll api () w)) = storage w"
  unfolding doTaskPoll_def wrapInNoPermissionsRetry_result
  by (simp add: api_Task_List_storage api_Auth_Logout_def)

lemma doTaskPoll_notifications: "notifications (snd (doTaskPoll api () w)) = notifications w"
  unfolding doTaskPoll_def wrapInNoPermissionsRetry_result
  by (simp add: api_Task_List_notifications api_Auth_Logout_def)

lemma pollTasks_unfold:
  "pollTasks imports api t0 t1 w =
     (case doTaskPoll api () (initiated t0 w) of
        (Rejected e, w') \<Rightarrow> (Resolved (), w')
      | (Resolved response, w') \<Rightarrow>
          (Resolved (),
           w'\<lparr>storage :=
             (case response of
                ConnectionFailure type msg \<Rightarrow>
                  (storage w')\<lparr>tasksLastCompletedFetchTimestamp := Some t1,
                     taskFetchFailureReason :=
                       Some (if type = ''missing-config'' then MissingConfig
                             else FailureMessage (errorMessageFromConnectionFailure imports type msg))\<rparr>
              | Success data \<Rightarrow>
                  (storage w')\<lparr>tasksLastCompletedFetchTimestamp := Some t1, tasks := data,
                     taskFetchFailureReason := None\<rparr>
              | Failure code \<Rightarrow>
                  (storage w')\<lparr>tasksLastCompletedFetchTimestamp := Some t1,
                     taskFetchFailureReason :=
                       Some (FailureMessage (errorMessageFromCode imports code ''DownloadStation.Task''))\<rparr>)\<rparr>))"
  by (auto simp: pollTasks_def Let_def catchP_def thenP_def promiseAll2_def resolve_def
      storage_local_set_def setEntry_def initiated_def
      split: prod.splits outcome.splits response.splits)

lemma pollTasks_earlier_unfold:
  "pollTasks_earlier imports api t0 t1 w =
     (case api_Task_List api \<lparr>offset = 0, limit = -1, additional = [''transfer''], timeout = None\<rparr>
             (initiated t0 w) of
        (Rejected e, w') \<Rightarrow>
          (Resolved (),
           w'\<lparr>storage := (storage w')\<lparr>taskFetchFailureReason := Some (FailureMessage (failureMessageOf e)),
                 tasksLastCompletedFetchTimestamp := Some t1\<rparr>\<rparr>)
      | (Resolved response, w') \<Rightarrow>
          (Resolved (),
           w'\<lparr>storage :=
             (case response of
                ConnectionFailure type msg \<Rightarrow>
                  (storage w')\<lparr>tasksLastCompletedFetchTimestamp := Some t1,
                     taskFetchFailureReason :=
                       Some (if type = ''missing-config'' then MissingConfig else FailureMessage msg)\<rparr>
              | Success data \<Rightarrow>
                  (storage w')\<lparr>tasksLastCompletedFetchTimestamp := Some t1, tasks := data,
                     taskFetchFailureReason := None\<rparr>
              | Failure code \<Rightarrow>
                  (storage w')\<lparr>tasksLastCompletedFetchTimestamp := Some t1,
                     taskFetchFailureReason :=
                       Some (FailureMessage (errorMessageFromCode imports code (Task_API_NAME imports)))\<rparr>)\<rparr>))"
  by (auto simp: pollTasks_earlier_def Let_def catchP_def thenP_def promiseAll2_def resolve_def
      storage_local_set_def setEntry_def initiated_def
      split: prod.splits outcome.splits response.splits)

lemma pollTasks_storage:
  "storage (snd (pollTasks imports api t0 t1 w)) =
     (case fst (doTaskPoll api () (initiated t0 w)) of
        Resolved response \<Rightarrow> spec_snapshot imports response t1 (storage (initiated t0 w))
      | Rejected e \<Rightarrow> storage (initiated t0 w))"
proof -
  obtain out w' where d: "doTaskPoll api () (initiated t0 w) = (out, w')" by force
  have s: "storage w' = storage (initiated t0 w)"
    using doTaskPoll_storage[of api "initiated t0 w"] d by simp
  show ?thesis
    unfolding pollTasks_unfold d
    by (cases out) (auto simp: s spec_snapshot_def split: response.splits)
qed

lemma pollTasks_resolves: "fst (pollTasks imports api t0 t1 w) = Resolved ()"
  unfolding pollTasks_unfold
  by (auto split: prod.splits outcome.splits)

lemma spec_snapshot_fields:
  "tasksLastCompletedFetchTimestamp (spec_snapshot imports response t c) = Some t \<and>
   tasks (spec_snapshot imports (Success data) t c) = data \<and>
   taskFetchFailureReason (spec_snapshot imports (Success data) t c) = None \<and>
   taskFetchFailureReason (spec_snapshot imports (ConnectionFailure type msg) t c) =
     Some (if type = ''missing-config'' then MissingConfig
           else FailureMessage (errorMessageFromConnectionFailure imports type msg)) \<and>
   taskFetchFailureReason (spec_snapshot imports (Failure code) t c) =
     Some (FailureMessage (errorMessageFromCode imports code ''DownloadStation.Task''))"
  by (cases response) (simp_all add: spec_snapshot_def)

text \<open>
  Claim C1, as stated, fails: when the wrapped \<open>Task.List\<close> call rejects, \<open>pollTasks\<close>
  only writes to the console, and the cache has neither a completed-fetch timestamp nor
  a failure reason.
\<close>

theorem pollTasks_rejected_call_counterexample:
  "fst (pollTasks someImports rejectingClient 10 20 (clearedWorld ())) = Resolved () \<and>
   tasksLastCompletedFetchTimestamp
     (storage (snd (pollTasks someImports rejectingClient 10 20 (clearedWorld ())))) = None \<and>
   taskFetchFailureReason
     (storage (snd (pollTasks someImports rejectingClient 10 20 (clearedWorld ())))) = None"
  unfolding pollTasks_unfold
  by (simp add: doTaskPoll_def wrapInNoPermissionsRetry_result rejectingClient_def api_Task_List_def
      spec_noPermissions_def initiated_def clearedWorld_def emptyState_def)

text \<open>
  Claim C1, amended. Every invocation of \<open>pollTasks\<close> resolves. When the wrapped
  \<open>Task.List\<close> call resolves, the cache gets a snapshot with the completed-fetch
  timestamp: the tasks of the response and no failure reason when the response is
  successful, a failure reason (\<open>missing-config\<close> or a failure message) when it is a
  connection failure or an unsuccessful response. When the call rejects, the cache only
  has the initiated-fetch timestamp written before the call.
\<close>

theorem pollTasks_caches_snapshot:
  "fst (pollTasks imports api t0 t1 w) = Resolved () \<and>
   storage (snd (pollTasks imports api t0 t1 w)) =
     (case fst (doTaskPoll api () (initiated t0 w)) of
        Resolved response \<Rightarrow> spec_snapshot imports response t1 (storage (initiated t0 w))
      | Rejected e \<Rightarrow> storage (initiated t0 w)) \<and>
   tasksLastCompletedFetchTimestamp (spec_snapshot imports response t c) = Some t \<and>
   tasks (spec_snapshot imports (Success data) t c) = data \<and>
   taskFetchFailureReason (spec_snapshot imports (Success data) t c) = None \<and>
   taskFetchFailureReason (spec_snapshot imports (ConnectionFailure type msg) t c) =
     Some (if type = ''missing-config'' then MissingConfig
           else FailureMessage (errorMessageFromConnectionFailure imports type msg)) \<and>
   taskFetchFailureReason (spec_snapshot imports (Failure code) t c) =
     Some (FailureMessage (errorMessageFromCode imports code ''DownloadStation.Task''))"
  using pollTasks_resolves[of "imports" api t0 t1 w] pollTasks_storage[of "imports" api t0 t1 w]
    spec_snapshot_fields[of "imports" response t c data type msg code]
  by simp

section \<open>TaskPoller\<close>

text \<open>
  The class \<open>TaskPoller\<close> of taskPoller.ts. \<open>interval\<close> is a number (of seconds).
\<close>

record PollerSettings =
  enabled :: bool
  hostname :: string
  sid :: "string option"
  interval :: number

definition DEFAULT_SETTINGS :: PollerSettings where
  "DEFAULT_SETTINGS = \<lparr>enabled = False, hostname = [], sid = None, interval = Finite 60\<rparr>"

text \<open>
  A \<open>Partial<PollerSettings>\<close> object is the list of the properties it sets; the
  spread \<open>{ ...a, ...b }\<close> overwrites the properties of \<open>a\<close> by those of \<open>b\<close>.
\<close>

datatype settingsEntry =
    Put_enabled bool
  | Put_hostname string
  | Put_sid "string option"
  | Put_interval number

definition putSetting :: "PollerSettings \<Rightarrow> settingsEntry \<Rightarrow> PollerSettings" where
  "putSetting s e =
     (case e of
        Put_enabled v \<Rightarrow> s\<lparr>enabled := v\<rparr>
      | Put_hostname v \<Rightarrow> s\<lparr>hostname := v\<rparr>
      | Put_sid v \<Rightarrow> s\<lparr>sid := v\<rparr>
      | Put_interval v \<Rightarrow> s\<lparr>interval := v\<rparr>)"

definition spreadSettings :: "PollerSettings \<Rightarrow> settingsEntry list \<Rightarrow> PollerSettings" where
  "spreadSettings s entries = foldl putSetting s entries"

text \<open>
  The objects \<open>{ ...settings, interval: undefined }\<close> that \<open>updateSettings\<close>
  compares: settings whose \<open>interval\<close> may be \<open>undefined\<close> (\<open>None\<close>).
\<close>

record SettingsObject =
  enabledOf :: bool
  hostnameOf :: string
  sidOf :: "string option"
  intervalOf :: "number option"

definition withInterval :: "PollerSettings \<Rightarrow> number option \<Rightarrow> SettingsObject" where
  "withInterval s v =
     \<lparr>enabledOf = enabled s, hostnameOf = hostname s, sidOf = sid s, intervalOf = v\<rparr>"

text \<open>
  Modelled from the spec: \<open>shallowEqual\<close> of the module \<open>./shallowEqual\<close>, which is
  not among the sources. Two objects are shallowly equal when they have the same
  properties with strictly equal values; the claim reads its negation as the settings
  differing on some field.
\<close>

definition shallowEqual :: "SettingsObject \<Rightarrow> SettingsObject \<Rightarrow> bool" where
  "shallowEqual a b =
     (enabledOf a = enabledOf b \<and> hostnameOf a = hostnameOf b \<and> sidOf a = sidOf b \<and>
      intervalOf a = intervalOf b)"

text \<open>
  The response of the static \<open>DownloadStation.Task.List(hostname, sid, options)\<close> of
  the module \<open>./api\<close>, and the tables \<open>ERROR_CODES.common\<close> and \<open>ERROR_CODES.task\<close> of
  that module (not among the sources: a parameter of the model).
\<close>

datatype 'd SynologyResponse = SynologySuccess 'd | SynologyFailure int

record ERROR_CODES =
  common :: "int \<Rightarrow> string option"
  task :: "int \<Rightarrow> string option"

text \<open>
  What the poller keeps in the browser's local storage. The property \<open>tasks\<close> is
  named \<open>pollerTasks\<close> here, to tell it from the one of the actions module.
\<close>

record PollerCachedTasks =
  pollerTasks :: "Task list"
  tasksFetchFailureMessage :: "string option"
  tasksFetchUpdateTimestamp :: "int option"

datatype pollerCacheEntry =
    Put_tasks "Task list"
  | Put_tasksFetchFailureMessage "string option"
  | Put_tasksFetchUpdateTimestamp int

definition putCached :: "PollerCachedTasks \<Rightarrow> pollerCacheEntry \<Rightarrow> PollerCachedTasks" where
  "putCached c e =
     (case e of
        Put_tasks v \<Rightarrow> c\<lparr>pollerTasks := v\<rparr>
      | Put_tasksFetchFailureMessage v \<Rightarrow> c\<lparr>tasksFetchFailureMessage := v\<rparr>
      | Put_tasksFetchUpdateTimestamp v \<Rightarrow> c\<lparr>tasksFetchUpdateTimestamp := Some v\<rparr>)"

text \<open>
  The promises of a poll that have not settled yet, each with the \<open>count\<close> that its
  \<open>tryPoll\<close> captured: a \<open>Task.List\<close> request without its response; the callback of
  \<open>Promise.resolve().then(...)\<close> of the branch without host or session, not yet run;
  and \<open>pollPromise\<close>, whose handler has started its write to the storage and whose
  \<open>then\<close> callback has not run yet. A timeout is the delay given to \<open>setTimeout\<close> and
  the captured \<open>count\<close>.
\<close>

datatype pendingPromise =
    ListRequest nat string string
  | MissingConfigCallback nat
  | PollPromise nat

record TaskPoller =
  tryPollCount :: nat
  settings :: PollerSettings
  localStorage :: PollerCachedTasks
  pending :: "pendingPromise list"
  timeouts :: "(number \<times> nat) list"

definition localStorage_set :: "pollerCacheEntry list \<Rightarrow> TaskPoller \<Rightarrow> TaskPoller" where
  "localStorage_set items this = this\<lparr>localStorage := foldl putCached (localStorage this) items\<rparr>"

text \<open>
  \<open>tryPoll\<close>, up to the creation of the promise; what its callbacks do when the
  promise settles follows below. The counter is a natural number (a JavaScript number
  counts exactly up to \<open>2^53\<close>).
\<close>

definition tryPoll :: "TaskPoller \<Rightarrow> TaskPoller" where
  "tryPoll this0 =
     (let count = tryPollCount this0 + 1;
          this = this0\<lparr>tryPollCount := count\<rparr>
      in if enabled (settings this) then
           (if hostname (settings this) \<noteq> [] \<and> truthy (sid (settings this)) then
              this\<lparr>pending := pending this @
                [ListRequest count (hostname (settings this)) (the (sid (settings this)))]\<rparr>
            else this\<lparr>pending := pending this @ [MissingConfigCallback count]\<rparr>)
         else this)"

definition updateSettings :: "settingsEntry list \<Rightarrow> TaskPoller \<Rightarrow> TaskPoller" where
  "updateSettings settings' this0 =
     (let newSettings = spreadSettings (settings this0) settings';
          oldSettings = settings this0;
          this = this0\<lparr>settings := newSettings\<rparr>
      in if \<not> shallowEqual (withInterval newSettings None) (withInterval oldSettings None)
         then tryPoll this
         else this)"

text \<open>
  The constructor: \<open>this.updateSettings(settings || DEFAULT_SETTINGS)\<close> on the initial
  fields; \<open>stored\<close> is what the browser storage holds at that time.
\<close>

definition newTaskPoller :: "settingsEntry list option \<Rightarrow> PollerCachedTasks \<Rightarrow> TaskPoller" where
  "newTaskPoller settings' stored =
     updateSettings
       (case settings' of
          Some entries \<Rightarrow> entries
        | None \<Rightarrow> [Put_enabled False, Put_hostname [], Put_sid None, Put_interval (Finite 60)])
       \<lparr>tryPollCount = 0, settings = DEFAULT_SETTINGS, localStorage = stored, pending = [],
        timeouts = []\<rparr>"

text \<open>
  The callbacks of \<open>tryPoll\<close>: \<open>.then(response => ...)\<close>, \<open>.catch(error => ...)\<close>, the
  callback of the branch without host or session, \<open>pollPromise.then(() => ...)\<close> and the
  callback given to \<open>setTimeout\<close>. \<open>now\<close> is the reading of \<open>Date.now()\<close>, and
  \<open>multiply\<close> the multiplication of numbers.
\<close>

definition onListResponse ::
  "ERROR_CODES \<Rightarrow> Task list SynologyResponse \<Rightarrow> int \<Rightarrow> TaskPoller \<Rightarrow> TaskPoller" where
  "onListResponse codes response now this =
     (if enabled (settings this) then
        (let cachedTasks =
               (case response of
                  SynologySuccess data \<Rightarrow>
                    [Put_tasks data, Put_tasksFetchFailureMessage None,
                     Put_tasksFetchUpdateTimestamp now]
                | SynologyFailure code \<Rightarrow>
                    [Put_tasksFetchFailureMessage
                       (orElse (orElse (common codes code) (task codes code)) (Some ''Unknown error.'')),
                     Put_tasksFetchUpdateTimestamp now])
         in localStorage_set cachedTasks this)
      else this)"

definition onListError :: "js_value \<Rightarrow> int \<Rightarrow> TaskPoller \<Rightarrow> TaskPoller" where
  "onListError error now this =
     (if enabled (settings this) then
        (let failureMessage = failureMessageOf error;
             cachedTasks =
               [Put_tasksFetchFailureMessage (Some failureMessage),
                Put_tasksFetchUpdateTimestamp now]
         in localStorage_set cachedTasks this)
      else this)"

definition onMissingConfig :: "int \<Rightarrow> TaskPoller \<Rightarrow> TaskPoller" where
  "onMissingConfig now this =
     (let cachedTasks =
            [Put_tasksFetchFailureMessage
               (Some ''Host, username or password is not set. Please check your settings.''),
             Put_tasksFetchUpdateTimestamp now]
      in localStorage_set cachedTasks this)"

definition onPollPromise ::
  "(number \<Rightarrow> number \<Rightarrow> number) \<Rightarrow> nat \<Rightarrow> TaskPoller \<Rightarrow> TaskPoller" where
  "onPollPromise multiply count this =
     (if enabled (settings this) then
        this\<lparr>timeouts := timeouts this @
          [(multiply (interval (settings this)) (Finite 1000), count)]\<rparr>
      else this)"

definition onTimeout :: "nat \<Rightarrow> TaskPoller \<Rightarrow> TaskPoller" where
  "onTimeout count this = (if count = tryPollCount this then tryPoll this else this)"

text \<open>
  The poller reacts to events: a call of \<open>updateSettings\<close>; the \<open>i\<close>-th pending
  promise, a \<open>Task.List\<close> request, settles; the callback of the \<open>i\<close>-th pending
  promise runs; the \<open>i\<close>-th timeout fires. Events may come in any order.
\<close>

datatype event =
    UpdateSettings "settingsEntry list"
  | ListSettles nat "Task list SynologyResponse outcome" int
  | CallbackRuns nat int
  | TimeoutFires nat

definition without :: "nat \<Rightarrow> 'a list \<Rightarrow> 'a list" where
  "without i xs = take i xs @ drop (Suc i) xs"

definition step ::
  "(number \<Rightarrow> number \<Rightarrow> number) \<Rightarrow> ERROR_CODES \<Rightarrow> event \<Rightarrow> TaskPoller \<Rightarrow> TaskPoller" where
  "step multiply codes e this =
     (case e of
        UpdateSettings settings' \<Rightarrow> updateSettings settings' this
      | ListSettles i out now \<Rightarrow>
          (if i < length (pending this) then
             (case pending this ! i of
                ListRequest count h s \<Rightarrow>
                  (let this' = this\<lparr>pending := without i (pending this) @ [PollPromise count]\<rparr>
                   in case out of
                        Resolved response \<Rightarrow> onListResponse codes response now this'
                      | Rejected error \<Rightarrow> onListError error now this')
              | _ \<Rightarrow> this)
           else this)
      | CallbackRuns i now \<Rightarrow>
          (if i < length (pending this) then
             (case pending this ! i of
                MissingConfigCallback count \<Rightarrow>
                  onMissingConfig now
                    (this\<lparr>pending := without i (pending this) @ [PollPromise count]\<rparr>)
              | PollPromise count \<Rightarrow>
                  onPollPromise multiply count (this\<lparr>pending := without i (pending this)\<rparr>)
              | _ \<Rightarrow> this)
           else this)
      | TimeoutFires i \<Rightarrow>
          (if i < length (timeouts this) then
             onTimeout (snd (timeouts this ! i))
               (this\<lparr>timeouts := without i (timeouts this)\<rparr>)
           else this))"

definition run ::
  "(number \<Rightarrow> number \<Rightarrow> number) \<Rightarrow> ERROR_CODES \<Rightarrow> event list \<Rightarrow> TaskPoller \<Rightarrow> TaskPoller" where
  "run multiply codes events this = foldl (\<lambda>s e. step multiply codes e s) this events"


text \<open>
  The notions of the claims: settings that agree on every field but \<open>interval\<close>; the
  failure message by the shape of the error; the chain counts that the pending promises
  and timeouts of a poller have captured, none of which is ahead of \<open>tryPollCount\<close>.
\<close>

definition spec_sameBesidesInterval :: "PollerSettings \<Rightarrow> PollerSettings \<Rightarrow> bool" where
  "spec_sameBesidesInterval a b =
     (enabled a = enabled b \<and> hostname a = hostname b \<and> sid a = sid b)"

definition spec_failureMessage :: "js_value \<Rightarrow> string" where
  "spec_failureMessage e =
     (case e of
        JsObject b m st \<Rightarrow>
          if st = Some 400 then ''Connection failure (likely wrong protocol).''
          else if m = Some ''Network Error'' then
            ''Connection failure (likely incorrect hostname/port or no internet connection).''
          else ''Unknown error.''
      | _ \<Rightarrow> ''Unknown error.'')"

fun countOf :: "pendingPromise \<Rightarrow> nat" where
  "countOf (ListRequest c h s) = c"
| "countOf (MissingConfigCallback c) = c"
| "countOf (PollPromise c) = c"

definition capturedCounts :: "TaskPoller \<Rightarrow> nat list" where
  "capturedCounts this = map countOf (pending this) @ map snd (timeouts this)"

definition chainsBounded :: "TaskPoller \<Rightarrow> bool" where
  "chainsBounded this = list_all (\<lambda>c. c \<le> tryPollCount this) (capturedCounts this)"

definition emptyCache :: PollerCachedTasks where
  "emptyCache = \<lparr>pollerTasks = [], tasksFetchFailureMessage = None, tasksFetchUpdateTimestamp = None\<rparr>"

definition noCodes :: ERROR_CODES where
  "noCodes = \<lparr>common = (\<lambda>code. None), task = (\<lambda>code. None)\<rparr>"

definition nasSettings :: PollerSettings where
  "nasSettings = \<lparr>enabled = True, hostname = ''nas'', sid = Some ''sid'', interval = Finite 60\<rparr>"

text \<open>
  For the examples: a multiplication that is exact on finite numbers, and the poller
  constructed with settings of a host.
\<close>

definition exactProduct :: "number \<Rightarrow> number \<Rightarrow> number" where
  "exactProduct a b =
     (case a of
        Finite x \<Rightarrow> (case b of Finite y \<Rightarrow> Finite (x * y) | _ \<Rightarrow> NaN)
      | _ \<Rightarrow> NaN)"

definition nasPoller :: TaskPoller where
  "nasPoller =
     newTaskPoller (Some [Put_enabled True, Put_hostname ''nas'', Put_sid (Some ''sid'')]) emptyCache"

definition pollerRequesting :: TaskPoller where
  "pollerRequesting =
     \<lparr>tryPollCount = 1, settings = nasSettings, localStorage = emptyCache,
      pending = [ListRequest 1 ''nas'' ''sid''], timeouts = []\<rparr>"

definition pollerScheduled :: TaskPoller where
  "pollerScheduled =
     \<lparr>tryPollCount = 1, settings = nasSettings, localStorage = emptyCache,
      pending = [], timeouts = [(Finite 60000, 1)]\<rparr>"

subsection \<open>updateSettings\<close>

lemma shallowEqual_same:
  "shallowEqual (withInterval a None) (withInterval b None) = spec_sameBesidesInterval a b"
  by (simp add: shallowEqual_def withInterval_def spec_sameBesidesInterval_def)

lemma updateSettings_unfold:
  "updateSettings p s =
     (if spec_sameBesidesInterval (spreadSettings (settings s) p) (settings s)
      then s\<lparr>settings := spreadSettings (settings s) p\<rparr>
      else tryPoll (s\<lparr>settings := spreadSettings (settings s) p\<rparr>))"
  by (simp add: updateSettings_def Let_def shallowEqual_same)

lemma tryPoll_settings: "settings (tryPoll s) = settings s"
  by (simp add: tryPoll_def Let_def)

lemma tryPoll_count: "tryPollCount (tryPoll s) = tryPollCount s + 1"
  by (simp add: tryPoll_def Let_def)

lemma tryPoll_timeouts: "timeouts (tryPoll s) = timeouts s"
  by (simp add: tryPoll_def Let_def)

lemma tryPoll_localStorage: "localStorage (tryPoll s) = localStorage s"
  by (simp add: tryPoll_def Let_def)

lemma tryPoll_pending:
  "pending (tryPoll s) =
     pending s @
       (if enabled (settings s) then
          [if hostname (settings s) \<noteq> [] \<and> truthy (sid (settings s))
           then ListRequest (tryPollCount s + 1) (hostname (settings s)) (the (sid (settings s)))
           else MissingConfigCallback (tryPollCount s + 1)]
        else [])"
  by (simp add: tryPoll_def Let_def)

lemma updateSettings_settings: "settings (updateSettings p s) = spreadSettings (settings s) p"
  by (simp add: updateSettings_unfold tryPoll_settings)

lemma updateSettings_count:
  "tryPollCount (updateSettings p s) =
     (if spec_sameBesidesInterval (spreadSettings (settings s) p) (settings s)
      then tryPollCount s else tryPollCount s + 1)"
  by (simp add: updateSettings_unfold tryPoll_count)

lemma updateSettings_pending:
  "pending (updateSettings p s) =
     pending s @
       (if \<not> spec_sameBesidesInterval (spreadSettings (settings s) p) (settings s) \<and>
           enabled (spreadSettings (settings s) p) then
          [if hostname (spreadSettings (settings s) p) \<noteq> [] \<and> truthy (sid (spreadSettings (settings s) p))
           then ListRequest (tryPollCount s + 1) (hostname (spreadSettings (settings s) p))
                  (the (sid (spreadSettings (settings s) p)))
           else MissingConfigCallback (tryPollCount s + 1)]
        else [])"
  by (simp add: updateSettings_unfold tryPoll_pending)

lemma updateSettings_interval_only:
  "updateSettings [Put_interval v] s = s\<lparr>settings := (settings s)\<lparr>interval := v\<rparr>\<rparr>"
  by (simp add: updateSettings_unfold spreadSettings_def putSetting_def spec_sameBesidesInterval_def)

lemma failureMessageOf_spec: "failureMessageOf e = spec_failureMessage e"
  by (cases e) (simp_all add: failureMessageOf_def spec_failureMessage_def js_truthy_def
      responseStatusOf_def messageOf_def)

lemma step_count_mono: "tryPollCount s \<le> tryPollCount (step mul codes e s)"
  by (cases e)
     (auto simp: step_def updateSettings_count onListResponse_def onListError_def
        onMissingConfig_def onPollPromise_def onTimeout_def tryPoll_count localStorage_set_def
        Let_def split: pendingPromise.splits outcome.splits)

lemma run_count_mono: "tryPollCount s \<le> tryPollCount (run mul codes es s)"
  unfolding run_def
proof (induction es arbitrary: s)
  case Nil
  then show ?case by simp
next
  case (Cons e es)
  have "tryPollCount s \<le> tryPollCount (step mul codes e s)" by (rule step_count_mono)
  also have "\<dots> \<le> tryPollCount (foldl (\<lambda>s e. step mul codes e s) (step mul codes e s) es)"
    by (rule Cons.IH)
  finally show ?case by simp
qed

lemma spreadSettings_snoc: "spreadSettings s (p @ [e]) = putSetting (spreadSettings s p) e"
  by (simp add: spreadSettings_def)

lemma spreadSettings_keeps_interval:
  "\<forall>v. Put_interval v \<notin> set p \<Longrightarrow> interval (spreadSettings s p) = interval s"
  unfolding spreadSettings_def
  by (induction p arbitrary: s) (auto simp: putSetting_def split: settingsEntry.splits)

text \<open>
  Claim C3, as stated, fails: a running poller whose settings change to disabled differs
  from its previous settings on \<open>enabled\<close>, yet no poll is initiated (no request is
  sent, nothing is written to the cache and no timeout is set).
\<close>

theorem updateSettings_disabled_counterexample:
  "\<not> spec_sameBesidesInterval
       (settings (updateSettings [Put_enabled False] pollerScheduled)) (settings pollerScheduled) \<and>
   pending (updateSettings [Put_enabled False] pollerScheduled) = pending pollerScheduled \<and>
   localStorage (updateSettings [Put_enabled False] pollerScheduled) = localStorage pollerScheduled \<and>
   timeouts (updateSettings [Put_enabled False] pollerScheduled) = timeouts pollerScheduled"
  by (simp add: updateSettings_unfold tryPoll_def Let_def spreadSettings_def putSetting_def
      spec_sameBesidesInterval_def pollerScheduled_def nasSettings_def)

text \<open>
  Claim C3, amended. For every call of \<open>updateSettings\<close> with a partial settings object,
  the stored settings become the old settings overwritten by the given fields, and
  \<open>tryPoll\<close> is invoked (a new polling chain starts: \<open>tryPollCount\<close> grows by one) if and
  only if the merged settings differ from the previous ones on some field other than
  \<open>interval\<close>; a change of \<open>interval\<close> alone changes nothing else. The invocation
  initiates a poll (a new pending promise) only when the merged settings are enabled.
\<close>

theorem updateSettings_merges_and_starts_chain:
  "settings (updateSettings p s) = spreadSettings (settings s) p \<and>
   updateSettings p s =
     (if spec_sameBesidesInterval (spreadSettings (settings s) p) (settings s)
      then s\<lparr>settings := spreadSettings (settings s) p\<rparr>
      else tryPoll (s\<lparr>settings := spreadSettings (settings s) p\<rparr>)) \<and>
   tryPollCount (updateSettings p s) =
     (if spec_sameBesidesInterval (spreadSettings (settings s) p) (settings s)
      then tryPollCount s else tryPollCount s + 1) \<and>
   pending (updateSettings p s) =
     pending s @
       (if \<not> spec_sameBesidesInterval (spreadSettings (settings s) p) (settings s) \<and>
           enabled (spreadSettings (settings s) p) then
          [if hostname (spreadSettings (settings s) p) \<noteq> [] \<and> truthy (sid (spreadSettings (settings s) p))
           then ListRequest (tryPollCount s + 1) (hostname (spreadSettings (settings s) p))
                  (the (sid (spreadSettings (settings s) p)))
           else MissingConfigCallback (tryPollCount s + 1)]
        else []) \<and>
   updateSettings [Put_interval v] s = s\<lparr>settings := (settings s)\<lparr>interval := v\<rparr>\<rparr>"
  using updateSettings_settings[of p s] updateSettings_unfold[of p s] updateSettings_count[of p s]
    updateSettings_pending[of p s] updateSettings_interval_only[of v s]
  by simp

subsection \<open>The chains of polls\<close>

text \<open>
  No pending promise and no timeout has a chain count above \<open>tryPollCount\<close>: every
  event keeps this, and it holds of a new poller.
\<close>

lemma set_without: "set (without i xs) \<subseteq> set xs"
  unfolding without_def using set_take_subset[of i xs] set_drop_subset[of "Suc i" xs] by auto

lemma chainsBounded_iff:
  "chainsBounded s =
     ((\<forall>p \<in> set (pending s). countOf p \<le> tryPollCount s) \<and>
      (\<forall>t \<in> set (timeouts s). snd t \<le> tryPollCount s))"
  by (auto simp: chainsBounded_def capturedCounts_def list_all_iff)

lemma chainsBounded_tryPoll: "chainsBounded s \<Longrightarrow> chainsBounded (tryPoll s)"
  by (auto simp: chainsBounded_iff tryPoll_pending tryPoll_count tryPoll_timeouts le_SucI)

lemma chainsBounded_updateSettings: "chainsBounded s \<Longrightarrow> chainsBounded (updateSettings p s)"
proof -
  assume b: "chainsBounded s"
  then have "chainsBounded (s\<lparr>settings := spreadSettings (settings s) p\<rparr>)"
    by (simp add: chainsBounded_iff)
  then show ?thesis
    using chainsBounded_tryPoll by (simp add: updateSettings_unfold)
qed

lemma chainsBounded_listSettles:
  assumes "chainsBounded s"
  shows "chainsBounded (step mul codes (ListSettles i out now) s)"
proof (cases "i < length (pending s)")
  case False
  with assms show ?thesis by (simp add: step_def)
next
  case True
  then have m: "pending s ! i \<in> set (pending s)" by simp
  show ?thesis
  proof (cases "pending s ! i")
    case (ListRequest c h sd)
    with m assms have c: "c \<le> tryPollCount s" by (auto simp: chainsBounded_iff)
    have "chainsBounded (s\<lparr>pending := without i (pending s) @ [PollPromise c]\<rparr>)"
      using assms c set_without[of i "pending s"] by (auto simp: chainsBounded_iff)
    then show ?thesis
      using True ListRequest
      by (cases out)
         (auto simp: step_def Let_def onListResponse_def onListError_def localStorage_set_def
           chainsBounded_iff)
  next
    case (MissingConfigCallback c)
    with True assms show ?thesis by (simp add: step_def)
  next
    case (PollPromise c)
    with True assms show ?thesis by (simp add: step_def)
  qed
qed

lemma chainsBounded_callbackRuns:
  assumes "chainsBounded s"
  shows "chainsBounded (step mul codes (CallbackRuns i now) s)"
proof (cases "i < length (pending s)")
  case False
  with assms show ?thesis by (simp add: step_def)
next
  case True
  then have m: "pending s ! i \<in> set (pending s)" by simp
  show ?thesis
  proof (cases "pending s ! i")
    case (ListRequest c h sd)
    with True assms show ?thesis by (simp add: step_def)
  next
    case (MissingConfigCallback c)
    with m assms have c: "c \<le> tryPollCount s" by (auto simp: chainsBounded_iff)
    show ?thesis
      using True MissingConfigCallback assms c set_without[of i "pending s"]
      by (auto simp: step_def onMissingConfig_def localStorage_set_def chainsBounded_iff Let_def)
  next
    case (PollPromise c)
    with m assms have c: "c \<le> tryPollCount s" by (auto simp: chainsBounded_iff)
    show ?thesis
      using True PollPromise assms c set_without[of i "pending s"]
      by (auto simp: step_def onPollPromise_def chainsBounded_iff)
  qed
qed

lemma chainsBounded_timeoutFires:
  assumes "chainsBounded s"
  shows "chainsBounded (step mul codes (TimeoutFires i) s)"
proof (cases "i < length (timeouts s)")
  case False
  with assms show ?thesis by (simp add: step_def)
next
  case True
  have b: "chainsBounded (s\<lparr>timeouts := without i (timeouts s)\<rparr>)"
    using assms set_without[of i "timeouts s"] by (auto simp: chainsBounded_iff)
  show ?thesis
    using True b chainsBounded_tryPoll[OF b]
    by (simp add: step_def onTimeout_def)
qed

lemma chainsBounded_step: "chainsBounded s \<Longrightarrow> chainsBounded (step mul codes e s)"
proof (cases e)
  case (UpdateSettings p)
  assume "chainsBounded s"
  then show ?thesis using UpdateSettings chainsBounded_updateSettings by (simp add: step_def)
next
  case (ListSettles i out now)
  assume "chainsBounded s"
  then show ?thesis using ListSettles chainsBounded_listSettles by simp
next
  case (CallbackRuns i now)
  assume "chainsBounded s"
  then show ?thesis using CallbackRuns chainsBounded_callbackRuns by simp
next
  case (TimeoutFires i)
  assume "chainsBounded s"
  then show ?thesis using TimeoutFires chainsBounded_timeoutFires by simp
qed

lemma chainsBounded_run: "chainsBounded s \<Longrightarrow> chainsBounded (run mul codes es s)"
  unfolding run_def
  by (induction es arbitrary: s) (simp_all add: chainsBounded_step)

lemma chainsBounded_new: "chainsBounded (newTaskPoller p stored)"
  unfolding newTaskPoller_def
  by (rule chainsBounded_updateSettings) (simp add: chainsBounded_iff)

text \<open>
  Once a new chain has started, every count captured before is below \<open>tryPollCount\<close>,
  and a timeout under such a count does not poll, in whichever state it fires.
\<close>

lemma older_timeout_never_polls:
  assumes "\<not> spec_sameBesidesInterval (spreadSettings (settings s) p) (settings s)"
    and "j < length (timeouts (run mul codes es (updateSettings p s)))"
    and "snd (timeouts (run mul codes es (updateSettings p s)) ! j) \<le> tryPollCount s"
  shows "step mul codes (TimeoutFires j) (run mul codes es (updateSettings p s)) =
           (run mul codes es (updateSettings p s))
             \<lparr>timeouts := without j (timeouts (run mul codes es (updateSettings p s)))\<rparr>"
proof -
  have "tryPollCount s < tryPollCount (updateSettings p s)"
    using assms(1) by (simp add: updateSettings_count)
  also have "\<dots> \<le> tryPollCount (run mul codes es (updateSettings p s))"
    by (rule run_count_mono)
  finally have "snd (timeouts (run mul codes es (updateSettings p s)) ! j)
                  \<noteq> tryPollCount (run mul codes es (updateSettings p s))"
    using assms(3) by simp
  with assms(2) show ?thesis by (simp add: step_def onTimeout_def)
qed

lemma captured_older:
  assumes "chainsBounded s"
    and "\<not> spec_sameBesidesInterval (spreadSettings (settings s) p) (settings s)"
  shows "\<forall>c \<in> set (capturedCounts s). c < tryPollCount (updateSettings p s)"
  using assms by (auto simp: chainsBounded_def list_all_iff updateSettings_count)

text \<open>
  What the events do. A response or the callback of the branch without host or session
  leaves the promise of the poll pending, under the count of the poll; the callback of
  that promise sets the timeout while the poller is enabled; a timeout that fires polls
  when its count is the current one; a request that rejects caches the failure message.
\<close>

lemma step_listSettles:
  assumes "i < length (pending s)" and "pending s ! i = ListRequest c h sd"
  shows "pending (step mul codes (ListSettles i out now) s) = without i (pending s) @ [PollPromise c] \<and>
         timeouts (step mul codes (ListSettles i out now) s) = timeouts s \<and>
         tryPollCount (step mul codes (ListSettles i out now) s) = tryPollCount s"
  using assms
  by (cases out)
     (simp_all add: step_def Let_def onListResponse_def onListError_def localStorage_set_def)

lemma step_listResolved:
  assumes "i < length (pending s)" and "pending s ! i = ListRequest c h sd"
  shows "localStorage (step mul codes (ListSettles i (Resolved response) now) s) =
           (if enabled (settings s) then
              (case response of
                 SynologySuccess data \<Rightarrow>
                   (localStorage s)\<lparr>pollerTasks := data, tasksFetchFailureMessage := None,
                      tasksFetchUpdateTimestamp := Some now\<rparr>
               | SynologyFailure code \<Rightarrow>
                   (localStorage s)\<lparr>tasksFetchFailureMessage :=
                        (if truthy (common codes code) then common codes code
                         else if truthy (task codes code) then task codes code
                         else Some ''Unknown error.''),
                      tasksFetchUpdateTimestamp := Some now\<rparr>)
            else localStorage s)"
  using assms
  by (cases response)
     (simp_all add: step_def Let_def onListResponse_def localStorage_set_def putCached_def
        orElse_def)

lemma step_missingConfig:
  assumes "i < length (pending s)" and "pending s ! i = MissingConfigCallback c"
  shows "pending (step mul codes (CallbackRuns i now) s) = without i (pending s) @ [PollPromise c] \<and>
         timeouts (step mul codes (CallbackRuns i now) s) = timeouts s \<and>
         tryPollCount (step mul codes (CallbackRuns i now) s) = tryPollCount s \<and>
         localStorage (step mul codes (CallbackRuns i now) s) =
           (localStorage s)\<lparr>tasksFetchFailureMessage :=
                Some ''Host, username or password is not set. Please check your settings.'',
              tasksFetchUpdateTimestamp := Some now\<rparr>"
  using assms by (simp add: step_def onMissingConfig_def localStorage_set_def putCached_def)

lemma step_pollPromise:
  assumes "i < length (pending s)" and "pending s ! i = PollPromise c"
  shows "step mul codes (CallbackRuns i now) s =
           (if enabled (settings s) then
              s\<lparr>pending := without i (pending s),
                timeouts := timeouts s @ [(mul (interval (settings s)) (Finite 1000), c)]\<rparr>
            else s\<lparr>pending := without i (pending s)\<rparr>)"
  using assms by (simp add: step_def onPollPromise_def)

lemma step_timeoutFires:
  assumes "i < length (timeouts s)" and "snd (timeouts s ! i) = c"
  shows "step mul codes (TimeoutFires i) s =
           (if c = tryPollCount s then tryPoll (s\<lparr>timeouts := without i (timeouts s)\<rparr>)
            else s\<lparr>timeouts := without i (timeouts s)\<rparr>)"
  using assms by (simp add: step_def onTimeout_def)

lemma step_listRejected:
  assumes "i < length (pending s)" and "pending s ! i = ListRequest c h sd"
  shows "localStorage (step mul codes (ListSettles i (Rejected e) now) s) =
           (if enabled (settings s) then
              (localStorage s)\<lparr>tasksFetchFailureMessage := Some (spec_failureMessage e),
                 tasksFetchUpdateTimestamp := Some now\<rparr>
            else localStorage s)"
  using assms
  by (simp add: step_def Let_def onListError_def localStorage_set_def putCached_def failureMessageOf_spec)

lemma pollTasks_earlier_rejected:
  assumes "fst (api_Task_List api \<lparr>offset = 0, limit = -1, additional = [''transfer''], timeout = None\<rparr>
             (initiated t0 w)) = Rejected e"
  shows "taskFetchFailureReason (storage (snd (pollTasks_earlier imp api t0 t1 w))) =
           Some (FailureMessage (spec_failureMessage e)) \<and>
         tasksLastCompletedFetchTimestamp (storage (snd (pollTasks_earlier imp api t0 t1 w))) = Some t1"
  using assms unfolding pollTasks_earlier_unfold
  by (auto simp: failureMessageOf_spec split: prod.splits outcome.splits)

text \<open>
  Claim C6. For every error \<open>e\<close> a poll rejects with, the failure message that is cached
  depends on the shape of \<open>e\<close> only. In \<open>TaskPoller.tryPoll\<close> the handler caches the
  message (while the poller is enabled; a disabled poller caches nothing), in the earlier
  \<open>pollTasks\<close> it always does. An error with a response of status 400 gives the message
  of a wrong protocol; otherwise an error with the message \<open>Network Error\<close> gives the one
  of a wrong host or no connection; every other error gives \<open>Unknown error.\<close>.
\<close>

theorem rejected_poll_failure_message:
  "(i < length (pending s) \<and> pending s ! i = ListRequest c h sd \<longrightarrow>
      localStorage (step mul codes (ListSettles i (Rejected e) now) s) =
        (if enabled (settings s) then
           (localStorage s)\<lparr>tasksFetchFailureMessage := Some (spec_failureMessage e),
              tasksFetchUpdateTimestamp := Some now\<rparr>
         else localStorage s)) \<and>
   (fst (api_Task_List api \<lparr>offset = 0, limit = -1, additional = [''transfer''], timeout = None\<rparr>
           (initiated t0 w)) = Rejected e \<longrightarrow>
      taskFetchFailureReason (storage (snd (pollTasks_earlier imp api t0 t1 w))) =
        Some (FailureMessage (spec_failureMessage e))) \<and>
   failureMessageOf e = spec_failureMessage e \<and>
   spec_failureMessage (JsObject b m (Some 400)) = ''Connection failure (likely wrong protocol).'' \<and>
   (st \<noteq> Some 400 \<longrightarrow>
      spec_failureMessage (JsObject b (Some ''Network Error'') st) =
        ''Connection failure (likely incorrect hostname/port or no internet connection).'') \<and>
   (st \<noteq> Some 400 \<and> m \<noteq> Some ''Network Error'' \<longrightarrow>
      spec_failureMessage (JsObject b m st) = ''Unknown error.'') \<and>
   spec_failureMessage JsUndefined = ''Unknown error.'' \<and>
   spec_failureMessage (JsString x) = ''Unknown error.''"
  using step_listRejected[of i s c h sd mul codes e now] pollTasks_earlier_rejected[of api t0 w e imp t1]
    failureMessageOf_spec[of e]
  by (simp add: spec_failureMessage_def)

theorem rejected_poll_failure_message_witness:
  "tasksFetchFailureMessage
     (localStorage (step exactProduct noCodes
        (ListSettles 0 (Rejected (JsObject True (Some ''Network Error'') None)) 7) pollerRequesting)) =
     Some ''Connection failure (likely incorrect hostname/port or no internet connection).'' \<and>
   taskFetchFailureReason
     (storage (snd (pollTasks_earlier someImports rejectingClient 10 20 (clearedWorld ())))) =
     Some (FailureMessage
       ''Connection failure (likely incorrect hostname/port or no internet connection).'') \<and>
   spec_failureMessage (JsObject True (Some ''timeout'') (Some 500)) = ''Unknown error.''"
  using rejected_poll_failure_message[where i = 0 and s = pollerRequesting and c = 1
      and h = "''nas''" and sd = "''sid''" and mul = exactProduct and codes = noCodes
      and e = "JsObject True (Some ''Network Error'') None" and now = 7
      and api = rejectingClient and ?t0.0 = 10 and w = "clearedWorld ()"
      and imp = someImports and ?t1.0 = 20 and b = True and m = "Some ''timeout''"
      and st = "Some 500"]
  by (simp add: pollerRequesting_def nasSettings_def rejectingClient_def api_Task_List_def
      initiated_def clearedWorld_def spec_failureMessage_def)

text \<open>
  Claim C8, as stated, fails: after \<open>updateSettings\<close> has started a new chain (the
  count is 2), the older chain (count 1) continues with its poll that is in flight: the
  response is written to the cache and the timeout of the older chain is set.
\<close>

theorem older_chain_continues_counterexample:
  "tryPollCount nasPoller = 1 \<and>
   pending nasPoller = [ListRequest 1 ''nas'' ''sid''] \<and>
   tryPollCount (run exactProduct noCodes [UpdateSettings [Put_hostname ''nas2'']] nasPoller) = 2 \<and>
   pending (run exactProduct noCodes [UpdateSettings [Put_hostname ''nas2'']] nasPoller) =
     [ListRequest 1 ''nas'' ''sid'', ListRequest 2 ''nas2'' ''sid''] \<and>
   localStorage (run exactProduct noCodes [UpdateSettings [Put_hostname ''nas2'']] nasPoller) =
     emptyCache \<and>
   localStorage (run exactProduct noCodes
       [UpdateSettings [Put_hostname ''nas2''],
        ListSettles 0 (Resolved (SynologyFailure 100)) 5] nasPoller) =
     \<lparr>pollerTasks = [], tasksFetchFailureMessage = Some ''Unknown error.'',
      tasksFetchUpdateTimestamp = Some 5\<rparr> \<and>
   timeouts (run exactProduct noCodes
       [UpdateSettings [Put_hostname ''nas2''],
        ListSettles 0 (Resolved (SynologyFailure 100)) 5,
        CallbackRuns 1 6] nasPoller) = [(Finite 60000, 1)]"
  by (simp add: nasPoller_def newTaskPoller_def updateSettings_unfold tryPoll_def Let_def
      spreadSettings_def putSetting_def spec_sameBesidesInterval_def DEFAULT_SETTINGS_def
      emptyCache_def noCodes_def truthy_def run_def step_def without_def onListResponse_def
      localStorage_set_def putCached_def orElse_def onPollPromise_def exactProduct_def)

text \<open>
  Claim C8, amended. A call of \<open>tryPoll\<close> takes the next count and, while the poller is
  enabled, starts a poll under it. When the response has been handled (an enabled poller
  writes the tasks or the failure message to the cache) or the callback of the branch
  without host or session has run (it writes its message), the promise of the poll is
  pending under the same count, and when that promise resolves an enabled poller sets a
  timeout with the delay \<open>interval * 1000\<close> (the product of the two numbers, in
  milliseconds) under that count. When the timeout fires, \<open>tryPoll\<close> runs if and only if
  the count still is \<open>tryPollCount\<close>. \<open>tryPollCount\<close> never decreases, and in every state
  the poller reaches from its construction no pending promise or timeout has a count
  above it. So once \<open>updateSettings\<close> has started a new chain, every count captured
  before is below \<open>tryPollCount\<close>, and a timeout under such a count never polls,
  whatever happens in between; the poll of an older chain that is in flight is still
  completed (its response is written and its timeout set).
\<close>

theorem tryPoll_chain_schedule:
  "tryPollCount (tryPoll s) = tryPollCount s + 1 \<and>
   pending (tryPoll s) =
     pending s @
       (if enabled (settings s) then
          [if hostname (settings s) \<noteq> [] \<and> truthy (sid (settings s))
           then ListRequest (tryPollCount s + 1) (hostname (settings s)) (the (sid (settings s)))
           else MissingConfigCallback (tryPollCount s + 1)]
        else []) \<and>
   timeouts (tryPoll s) = timeouts s \<and>
   (i < length (pending s) \<and> pending s ! i = ListRequest c h sd \<longrightarrow>
      pending (step mul codes (ListSettles i out now) s) = without i (pending s) @ [PollPromise c] \<and>
      timeouts (step mul codes (ListSettles i out now) s) = timeouts s \<and>
      tryPollCount (step mul codes (ListSettles i out now) s) = tryPollCount s \<and>
      localStorage (step mul codes (ListSettles i (Resolved response) now) s) =
        (if enabled (settings s) then
           (case response of
              SynologySuccess data \<Rightarrow>
                (localStorage s)\<lparr>pollerTasks := data, tasksFetchFailureMessage := None,
                   tasksFetchUpdateTimestamp := Some now\<rparr>
            | SynologyFailure code \<Rightarrow>
                (localStorage s)\<lparr>tasksFetchFailureMessage :=
                     (if truthy (common codes code) then common codes code
                      else if truthy (task codes code) then task codes code
                      else Some ''Unknown error.''),
                   tasksFetchUpdateTimestamp := Some now\<rparr>)
         else localStorage s)) \<and>
   (i < length (pending s) \<and> pending s ! i = MissingConfigCallback c \<longrightarrow>
      pending (step mul codes (CallbackRuns i now) s) = without i (pending s) @ [PollPromise c] \<and>
      timeouts (step mul codes (CallbackRuns i now) s) = timeouts s \<and>
      tryPollCount (step mul codes (CallbackRuns i now) s) = tryPollCount s \<and>
      localStorage (step mul codes (CallbackRuns i now) s) =
        (localStorage s)\<lparr>tasksFetchFailureMessage :=
             Some ''Host, username or password is not set. Please check your settings.'',
           tasksFetchUpdateTimestamp := Some now\<rparr>) \<and>
   (i < length (pending s) \<and> pending s ! i = PollPromise c \<longrightarrow>
      step mul codes (CallbackRuns i now) s =
        (if enabled (settings s) then
           s\<lparr>pending := without i (pending s),
             timeouts := timeouts s @ [(mul (interval (settings s)) (Finite 1000), c)]\<rparr>
         else s\<lparr>pending := without i (pending s)\<rparr>)) \<and>
   (j < length (timeouts s) \<and> snd (timeouts s ! j) = k \<longrightarrow>
      step mul codes (TimeoutFires j) s =
        (if k = tryPollCount s then tryPoll (s\<lparr>timeouts := without j (timeouts s)\<rparr>)
         else s\<lparr>timeouts := without j (timeouts s)\<rparr>)) \<and>
   tryPollCount s \<le> tryPollCount (run mul codes es s) \<and>
   chainsBounded (run mul codes es (newTaskPoller init stored)) \<and>
   (chainsBounded s \<and>
    \<not> spec_sameBesidesInterval (spreadSettings (settings s) p) (settings s) \<longrightarrow>
      (\<forall>c' \<in> set (capturedCounts s). c' < tryPollCount (updateSettings p s))) \<and>
   (\<not> spec_sameBesidesInterval (spreadSettings (settings s) p) (settings s) \<and>
    j' < length (timeouts (run mul codes es (updateSettings p s))) \<and>
    snd (timeouts (run mul codes es (updateSettings p s)) ! j') \<le> tryPollCount s \<longrightarrow>
      step mul codes (TimeoutFires j') (run mul codes es (updateSettings p s)) =
        (run mul codes es (updateSettings p s))
          \<lparr>timeouts := without j' (timeouts (run mul codes es (updateSettings p s)))\<rparr>)"
  using tryPoll_count[of s] tryPoll_pending[of s] tryPoll_timeouts[of s]
    step_listSettles[of i s c h sd mul codes out now]
    step_listResolved[of i s c h sd mul codes response now]
    step_missingConfig[of i s c mul codes now]
    step_pollPromise[of i s c mul codes now]
    step_timeoutFires[of j s k mul codes]
    run_count_mono[of s mul codes es]
    chainsBounded_run[OF chainsBounded_new, of mul codes es init stored]
    captured_older[of s p]
    older_timeout_never_polls[of s p j' mul codes es]
  by simp

theorem tryPoll_chain_schedule_witness:
  "pending (run exactProduct noCodes
      [ListSettles 0 (Resolved (SynologyFailure 100)) 5] nasPoller) = [PollPromise 1] \<and>
   timeouts (run exactProduct noCodes
      [ListSettles 0 (Resolved (SynologyFailure 100)) 5, CallbackRuns 0 6] nasPoller) =
     [(Finite 60000, 1)] \<and>
   tryPollCount (run exactProduct noCodes
      [ListSettles 0 (Resolved (SynologyFailure 100)) 5, CallbackRuns 0 6, TimeoutFires 0]
      nasPoller) = 2 \<and>
   pending (run exactProduct noCodes
      [ListSettles 0 (Resolved (SynologyFailure 100)) 5, CallbackRuns 0 6, TimeoutFires 0]
      nasPoller) = [ListRequest 2 ''nas'' ''sid''] \<and>
   pending (step exactProduct noCodes (CallbackRuns 0 4)
      (newTaskPoller (Some [Put_enabled True]) emptyCache)) = [PollPromise 1] \<and>
   chainsBounded (run exactProduct noCodes
      [ListSettles 0 (Resolved (SynologyFailure 100)) 5, CallbackRuns 0 6, TimeoutFires 0]
      nasPoller) \<and>
   2 < tryPollCount (updateSettings [Put_hostname ''nas2'']
      (run exactProduct noCodes
         [ListSettles 0 (Resolved (SynologyFailure 100)) 5, CallbackRuns 0 6, TimeoutFires 0]
         nasPoller)) \<and>
   timeouts (run exactProduct noCodes
      [ListSettles 0 (Rejected (JsObject True (Some ''Network Error'') None)) 7, CallbackRuns 1 8]
      (updateSettings [Put_hostname ''nas2'']
         (run exactProduct noCodes
            [ListSettles 0 (Resolved (SynologyFailure 100)) 5, CallbackRuns 0 6, TimeoutFires 0]
            nasPoller))) = [(Finite 60000, 2)] \<and>
   pending (step exactProduct noCodes (TimeoutFires 0)
      (run exactProduct noCodes
         [ListSettles 0 (Rejected (JsObject True (Some ''Network Error'') None)) 7, CallbackRuns 1 8]
         (updateSettings [Put_hostname ''nas2'']
            (run exactProduct noCodes
               [ListSettles 0 (Resolved (SynologyFailure 100)) 5, CallbackRuns 0 6, TimeoutFires 0]
               nasPoller)))) = [ListRequest 3 ''nas2'' ''sid''] \<and>
   tryPollCount (step exactProduct noCodes (TimeoutFires 0)
      (run exactProduct noCodes
         [ListSettles 0 (Rejected (JsObject True (Some ''Network Error'') None)) 7, CallbackRuns 1 8]
         (updateSettings [Put_hostname ''nas2'']
            (run exactProduct noCodes
               [ListSettles 0 (Resolved (SynologyFailure 100)) 5, CallbackRuns 0 6, TimeoutFires 0]
               nasPoller)))) = 3"
proof -
  note defs = nasPoller_def newTaskPoller_def updateSettings_unfold tryPoll_def Let_def
      spreadSettings_def putSetting_def spec_sameBesidesInterval_def DEFAULT_SETTINGS_def
      emptyCache_def noCodes_def truthy_def run_def step_def without_def onListResponse_def
      onListError_def onMissingConfig_def localStorage_set_def putCached_def orElse_def
      onPollPromise_def onTimeout_def exactProduct_def
  let ?e1 = "ListSettles 0 (Resolved (SynologyFailure 100)) 5"
  let ?e2 = "CallbackRuns 0 6"
  let ?e3 = "TimeoutFires 0"
  let ?e5 = "ListSettles 0 (Rejected (JsObject True (Some ''Network Error'') None)) 7"
  let ?e6 = "CallbackRuns 1 8"
  let ?p = "[Put_hostname ''nas2'']"
  define s1 where "s1 = run exactProduct noCodes [?e1] nasPoller"
  define s2 where "s2 = run exactProduct noCodes [?e1, ?e2] nasPoller"
  define s3 where "s3 = run exactProduct noCodes [?e1, ?e2, ?e3] nasPoller"
  define s6 where "s6 = run exactProduct noCodes [?e5, ?e6] (updateSettings ?p s3)"
  define m0 where "m0 = newTaskPoller (Some [Put_enabled True]) emptyCache"
  have r1: "s1 = step exactProduct noCodes ?e1 nasPoller" by (simp add: s1_def run_def)
  have r2: "s2 = step exactProduct noCodes ?e2 s1" by (simp add: s1_def s2_def run_def)
  have r3: "s3 = step exactProduct noCodes ?e3 s2" by (simp add: s2_def s3_def run_def)
  have h0: "0 < length (pending nasPoller)" "pending nasPoller ! 0 = ListRequest 1 ''nas'' ''sid''"
    "pending nasPoller = [ListRequest 1 ''nas'' ''sid'']"
    by (simp_all add: defs)
  have h1: "0 < length (pending s1)" "pending s1 ! 0 = PollPromise 1" "enabled (settings s1)"
    "interval (settings s1) = Finite 60" "timeouts s1 = []"
    by (simp_all add: s1_def defs)
  have h2: "0 < length (timeouts s2)" "snd (timeouts s2 ! 0) = 1" "tryPollCount s2 = 1"
    "enabled (settings s2)" "hostname (settings s2) = ''nas''" "sid (settings s2) = Some ''sid''"
    "pending s2 = []" "timeouts s2 = [(Finite 60000, 1)]"
    by (simp_all add: s2_def defs)
  have h3: "\<not> spec_sameBesidesInterval (spreadSettings (settings s3) ?p) (settings s3)"
    "2 \<in> set (capturedCounts s3)"
    by (simp_all add: s3_def capturedCounts_def defs)
  have h6: "0 < length (timeouts s6)" "snd (timeouts s6 ! 0) \<le> tryPollCount s3"
    "timeouts s6 = [(Finite 60000, 2)]" "pending s6 = [ListRequest 3 ''nas2'' ''sid'']"
    "tryPollCount s6 = 3"
    by (simp_all add: s6_def s3_def defs)
  have hm: "0 < length (pending m0)" "pending m0 ! 0 = MissingConfigCallback 1"
    "pending m0 = [MissingConfigCallback 1]"
    by (simp_all add: m0_def defs)
  from tryPoll_chain_schedule[where s = nasPoller and i = 0 and c = 1 and h = "''nas''"
      and sd = "''sid''" and mul = exactProduct and codes = noCodes
      and out = "Resolved (SynologyFailure 100)" and now = 5]
  have c1: "pending s1 = [PollPromise 1]"
    using h0 by (simp add: r1 without_def)
  from tryPoll_chain_schedule[where s = s1 and i = 0 and c = 1 and mul = exactProduct
      and codes = noCodes and now = 6]
  have c2: "timeouts s2 = [(Finite 60000, 1)]"
    using h1 by (simp add: r2 exactProduct_def)
  from tryPoll_chain_schedule[where s = s2 and j = 0 and k = 1 and mul = exactProduct
      and codes = noCodes]
  have "s3 = tryPoll (s2\<lparr>timeouts := without 0 (timeouts s2)\<rparr>)"
    using h2 by (simp add: r3)
  with tryPoll_chain_schedule[where s = "s2\<lparr>timeouts := without 0 (timeouts s2)\<rparr>"] h2
  have c3: "tryPollCount s3 = 2" "pending s3 = [ListRequest 2 ''nas'' ''sid'']"
    by (simp_all add: truthy_def)
  from tryPoll_chain_schedule[where s = m0 and i = 0 and c = 1 and mul = exactProduct
      and codes = noCodes and now = 4]
  have cm: "pending (step exactProduct noCodes (CallbackRuns 0 4) m0) = [PollPromise 1]"
    using hm by (simp add: without_def)
  from tryPoll_chain_schedule[where mul = exactProduct and codes = noCodes
      and es = "[?e1, ?e2, ?e3]"
      and init = "Some [Put_enabled True, Put_hostname ''nas'', Put_sid (Some ''sid'')]"
      and stored = emptyCache]
  have b3: "chainsBounded s3" by (simp add: s3_def nasPoller_def)
  from tryPoll_chain_schedule[where s = s3 and p = ?p] b3 h3
  have c4: "2 < tryPollCount (updateSettings ?p s3)" by blast
  from tryPoll_chain_schedule[where s = s3 and p = ?p and mul = exactProduct and codes = noCodes
      and es = "[?e5, ?e6]" and j' = 0]
  have "step exactProduct noCodes (TimeoutFires 0) s6 = s6\<lparr>timeouts := without 0 (timeouts s6)\<rparr>"
    using h3(1) h6(1,2) unfolding s6_def[symmetric] by blast
  then have c6: "pending (step exactProduct noCodes (TimeoutFires 0) s6) = [ListRequest 3 ''nas2'' ''sid'']"
    "tryPollCount (step exactProduct noCodes (TimeoutFires 0) s6) = 3"
    using h6 by simp_all
  from c1 c2 c3 cm b3 c4 h6(3) c6 show ?thesis
    unfolding s1_def s2_def s3_def s6_def m0_def by blast
qed

section \<open>Adding download tasks\<close>

text \<open>
  The constants of the task-submission module of taskPoller.ts.
\<close>

definition AUTO_DOWNLOAD_TORRENT_FILE_PROTOCOLS :: "string list" where
  "AUTO_DOWNLOAD_TORRENT_FILE_PROTOCOLS = [''http'', ''https'']"

definition DOWNLOADABLE_PROTOCOLS :: "string list" where
  "DOWNLOADABLE_PROTOCOLS =
     [''http'', ''https'', ''ftp'', ''ftps'', ''magnet'', ''thunder'', ''flashget'', ''qqdl'']"

definition ARBITRARY_FILE_FETCH_SIZE_CUTOFF :: real where
  "ARBITRARY_FILE_FETCH_SIZE_CUTOFF = 1024 * 1024 * 5"

text \<open>
  \<open>startsWithAnyProtocol\<close>: the URL starts with one of the protocols followed by a
  colon. The actions module imports its \<open>startsWithAnyProtocol\<close> from \<open>./protocols\<close>,
  which is not among the sources; the one of taskPoller.ts stands for it.
\<close>

definition startsWithAnyProtocol :: "string \<Rightarrow> string list \<Rightarrow> bool" where
  "startsWithAnyProtocol url protocols =
     list_ex (\<lambda>protocol. startsWith url (protocol @ '':'')) protocols"

text \<open>
  \<open>protocols.join(sep)\<close>, and the decimal digits of a number in a template string.
\<close>

fun join :: "string \<Rightarrow> string list \<Rightarrow> string" where
  "join sep [] = []"
| "join sep [x] = x"
| "join sep (x # y # ys) = x @ sep @ join sep (y # ys)"

definition digit :: "nat \<Rightarrow> char" where
  "digit d = char_of (48 + d)"

function decimal :: "nat \<Rightarrow> string" where
  "decimal n = (if n < 10 then [digit n] else decimal (n div 10) @ [digit (n mod 10)])"
  by pat_completeness auto
termination
  by (relation "measure id") auto

text \<open>
  The size test on a number. The conversion of a string by the unary plus is the
  language's \<open>ToNumber\<close>; its result on a header value is a parameter of the model (the
  field \<open>Number\<close> of the environment), and \<open>+undefined\<close> is \<open>NaN\<close>.
\<close>

definition isNaN :: "number \<Rightarrow> bool" where
  "isNaN n = (n = NaN)"

definition lessThanNumber :: "number \<Rightarrow> real \<Rightarrow> bool" where
  "lessThanNumber n c =
     (case n of NaN \<Rightarrow> False | NegativeInfinity \<Rightarrow> True | Finite r \<Rightarrow> r < c
      | PositiveInfinity \<Rightarrow> False)"

text \<open>
  The HTTP client: what \<open>Axios.head\<close> and \<open>Axios.get\<close> settle with for a URL is given
  by the environment. A response has its headers and its data.
\<close>

record HttpResponse =
  headers :: "string \<rightharpoonup> string"
  data :: string

record Environment =
  Axios_head :: "string \<Rightarrow> HttpResponse outcome"
  Axios_get :: "string \<Rightarrow> HttpResponse outcome"
  Number :: "string \<Rightarrow> number"

definition unaryPlus :: "Environment \<Rightarrow> string option \<Rightarrow> number" where
  "unaryPlus env v = (case v of None \<Rightarrow> NaN | Some s \<Rightarrow> Number env s)"

text \<open>
  \<open>FormFile | string\<close>: \<open>isFormFile\<close> tells the two apart.
\<close>

datatype task = File FormFile | Uri string

text \<open>
  \<open>.then\<close> on a promise whose callbacks change no state.
\<close>

definition thenO :: "'a outcome \<Rightarrow> ('a \<Rightarrow> 'b outcome) \<Rightarrow> 'b outcome" where
  "thenO p f = (case p of Resolved a \<Rightarrow> f a | Rejected e \<Rightarrow> Rejected e)"

text \<open>
  What \<open>response.headers['content-type'].toLowerCase()\<close> throws when the response has
  no such header.
\<close>

definition typeError :: js_value where
  "typeError = JsObject True (Some ''TypeError'') None"

text \<open>
  \<open>maybeMapUrlToFile\<close> and \<open>rejectUnknownUrls\<close> of \<open>addDownloadTasksAndPoll\<close>.
\<close>

definition maybeMapUrlToFile :: "Environment \<Rightarrow> string \<Rightarrow> task outcome" where
  "maybeMapUrlToFile env url =
     (if startsWithAnyProtocol url AUTO_DOWNLOAD_TORRENT_FILE_PROTOCOLS then
        thenO (Axios_head env url)
          (\<lambda>response.
             case headers response ''content-type'' of
               None \<Rightarrow> Rejected typeError
             | Some header \<Rightarrow>
                 (let contentType = toLowerCase header;
                      contentLength = headers response ''content-length'';
                      urlWithoutQuery =
                        (if indexOf url ''?'' \<noteq> -1 then sliceTo url (indexOf url ''?'') else url);
                      metadataFileType =
                        find (\<lambda>fileType. contentType = mediaType fileType \<or>
                                endsWith urlWithoutQuery (extension fileType))
                          METADATA_FILE_TYPES
                  in if metadataFileType \<noteq> None \<and> \<not> isNaN (unaryPlus env contentLength) \<and>
                        lessThanNumber (unaryPlus env contentLength) ARBITRARY_FILE_FETCH_SIZE_CUTOFF
                     then
                       thenO (Axios_get env url)
                         (\<lambda>response.
                            let content = \<lparr>blobParts = data response,
                                           blobType = mediaType (the metadataFileType)\<rparr>;
                                filename = guessFileName urlWithoutQuery (headers response)
                                             (the metadataFileType)
                            in Resolved (File \<lparr>content = content, filename = filename\<rparr>))
                     else Resolved (Uri url)))
      else Resolved (Uri url))"

definition rejectUnknownUrls :: "task outcome \<Rightarrow> task outcome" where
  "rejectUnknownUrls taskPromise =
     thenO taskPromise
       (\<lambda>task.
          case task of
            File f \<Rightarrow> Resolved task
          | Uri u \<Rightarrow>
              if startsWithAnyProtocol u DOWNLOADABLE_PROTOCOLS then Resolved task
              else Rejected (JsString (''URL '' @ [CHR 0x27] @ u @ [CHR 0x27] @
                     '' must start with one of '' @ join '', '' DOWNLOADABLE_PROTOCOLS)))"

text \<open>
  Modelled from the spec: \<open>notify\<close> of the browser utilities, which are not among the
  sources. A call shows a notification (success and failure are reported through them)
  and returns the id under which it is shown: the id given, or a new one. The actions
  module passes a type (\<open>success\<close> or \<open>failure\<close>) before the id; taskPoller.ts passes
  none.
\<close>

definition notify ::
  "string \<Rightarrow> string option \<Rightarrow> string option \<Rightarrow> nat option \<Rightarrow> 'r world \<Rightarrow> nat \<times> 'r world" where
  "notify title' message type id' w =
     (let newId = (case id' of Some i \<Rightarrow> i | None \<Rightarrow> length (notifications w))
      in (newId,
          w\<lparr>notifications := notifications w @
             [\<lparr>shownTitle = title', shownMessage = message,
               shownType = type, shownId = newId\<rparr>]\<rparr>))"

text \<open>
  \<open>path && path.startsWith('/') ? path.slice(1) : undefined\<close>
\<close>

definition destinationOf :: "string option \<Rightarrow> string option" where
  "destinationOf path =
     (if truthy path \<and> startsWith (the path) ''/'' then Some (sliceFrom (the path) 1) else None)"

text \<open>
  \<open>url.match(ED2K_FILENAME_REGEX)\<close>: the first capture group of the leftmost match,
  the text between \<open>|file|\<close> and the next bar, which must not be empty. The \<open>dn\<close>
  parameter that the query-string library reads from a magnet link is a parameter of
  the model.
\<close>

fun ED2K_FILENAME_REGEX_match :: "string \<Rightarrow> string option" where
  "ED2K_FILENAME_REGEX_match [] = None"
| "ED2K_FILENAME_REGEX_match (c # cs) =
     (if startsWith (c # cs) ''|file|'' then
        (let rest = drop 6 (c # cs);
             g = takeWhile (\<lambda>x. x \<noteq> CHR ''|'') rest
         in if g \<noteq> [] \<and> length g < length rest then Some g
            else ED2K_FILENAME_REGEX_match cs)
      else ED2K_FILENAME_REGEX_match cs)"

definition guessFileNameFromUrl :: "Imports \<Rightarrow> string \<Rightarrow> string option" where
  "guessFileNameFromUrl imports url =
     (if startsWith url ''magnet:'' then parseQueryString_dn imports url
      else if startsWith url ''ed2k:'' then ED2K_FILENAME_REGEX_match url
      else None)"

text \<open>
  The functions local to \<open>addDownloadTaskAndPoll\<close> (actions module) take what they
  capture (the imports, the URL, the id of the first notification) as arguments.
\<close>

definition notifyTaskAddResult ::
  "Imports \<Rightarrow> string \<Rightarrow> nat \<Rightarrow> string option \<Rightarrow> 'd response \<Rightarrow> (unit, 'r world) promise" where
  "notifyTaskAddResult imports url notificationId filename' result w =
     (Resolved (),
      snd (case result of
             ConnectionFailure type msg \<Rightarrow>
               notify ''Failed to connection to DiskStation'' (Some ''Please check your settings.'')
                 (Some ''failure'') (Some notificationId) w
           | Success d \<Rightarrow>
               notify ''Download added'' (orElse filename' (Some url)) (Some ''success'')
                 (Some notificationId) w
           | Failure code \<Rightarrow>
               notify ''Failed to add download''
                 (Some (errorMessageFromCode imports code ''DownloadStation.Task''))
                 (Some ''failure'') (Some notificationId) w))"

definition notifyUnexpectedError :: "nat \<Rightarrow> js_value \<Rightarrow> (unit, 'r world) promise" where
  "notifyUnexpectedError notificationId error w =
     (Resolved (),
      snd (notify ''Failed to add download''
             (Some ''Unexpected error; please check your settings and try again'')
             (Some ''failure'') (Some notificationId) w))"

text \<open>
  \<open>addDownloadTaskAndPoll\<close>: one URL. \<open>nowInitiated\<close> and \<open>nowCompleted\<close> are the readings
  of the clock in the poll that follows the submission.
\<close>

definition addDownloadTaskAndPoll ::
  "Imports \<Rightarrow> Environment \<Rightarrow> 'r ApiClient \<Rightarrow> string \<Rightarrow> string option \<Rightarrow> int \<Rightarrow> int \<Rightarrow>
   (unit, 'r world) promise" where
  "addDownloadTaskAndPoll imports env api url path nowInitiated nowCompleted w0 =
     (let (notificationId, w) = notify ''Adding download...'' (Some url) None None w0;
          destination = destinationOf path;
          pollOnResponse = (\<lambda>_. pollTasks imports api nowInitiated nowCompleted)
      in if url \<noteq> [] then
           (if startsWithAnyProtocol url (protocols_AUTO_DOWNLOAD_TORRENT_FILE_PROTOCOLS imports) then
              catchP
                (thenP (settled (Axios_head env url))
                   (\<lambda>response.
                      case headers response ''content-type'' of
                        None \<Rightarrow> reject typeError
                      | Some header \<Rightarrow>
                          (let contentType = toLowerCase header;
                               contentLength = headers response ''content-length'';
                               urlWithoutQuery =
                                 (if indexOf url ''?'' \<noteq> -1 then sliceTo url (indexOf url ''?'')
                                  else url);
                               metadataFileType =
                                 find (\<lambda>fileType. contentType = mediaType fileType \<or>
                                         endsWith urlWithoutQuery (extension fileType))
                                   METADATA_FILE_TYPES
                           in if metadataFileType \<noteq> None \<and>
                                 \<not> isNaN (unaryPlus env contentLength) \<and>
                                 lessThanNumber (unaryPlus env contentLength) ARBITRARY_FILE_FETCH_SIZE_CUTOFF
                              then
                                thenP (settled (Axios_get env url))
                                  (\<lambda>response.
                                     let content = \<lparr>blobParts = data response,
                                                    blobType = mediaType (the metadataFileType)\<rparr>;
                                         filename = guessTorrentFileName urlWithoutQuery
                                                      (headers response) (the metadataFileType)
                                     in thenP
                                          (thenP
                                             (doCreateTask api
                                                \<lparr>files = [\<lparr>content = content, filename = filename\<rparr>],
                                                 uri = [], destination = destination\<rparr>)
                                             (notifyTaskAddResult imports url notificationId
                                                (Some filename)))
                                          pollOnResponse)
                              else
                                thenP
                                  (thenP
                                     (doCreateTask api
                                        \<lparr>files = [], uri = [url], destination = destination\<rparr>)
                                     (notifyTaskAddResult imports url notificationId None))
                                  pollOnResponse)))
                (notifyUnexpectedError notificationId) w
            else if startsWithAnyProtocol url (protocols_ALL_DOWNLOADABLE_PROTOCOLS imports) then
              catchP
                (thenP
                   (thenP
                      (doCreateTask api \<lparr>files = [], uri = [url], destination = destination\<rparr>)
                      (notifyTaskAddResult imports url notificationId
                         (guessFileNameFromUrl imports url)))
                   pollOnResponse)
                (notifyUnexpectedError notificationId) w
            else
              (Resolved (),
               snd (notify ''Failed to add download''
                      (Some (''URL must start with one of '' @
                             join '', '' (protocols_ALL_DOWNLOADABLE_PROTOCOLS imports)))
                      (Some ''failure'') (Some notificationId) w)))
         else
           (Resolved (),
            snd (notify ''Failed to add download'' (Some ''No URL to download given'')
                   (Some ''failure'') (Some notificationId) w)))"

text \<open>
  The functions local to \<open>addDownloadTasksAndPoll\<close> (taskPoller.ts).
  \<open>notifyTaskAddResult\<close> is declared there and never called.
\<close>

definition notifyTaskAddResult_tasks ::
  "Imports \<Rightarrow> string list \<Rightarrow> nat option \<Rightarrow> string option \<Rightarrow> 'd response \<Rightarrow>
   (unit, 'r world) promise" where
  "notifyTaskAddResult_tasks imports urls notificationId filename' result w =
     (Resolved (),
      snd (case result of
             ConnectionFailure type msg \<Rightarrow>
               notify ''Failed to connection to DiskStation'' (Some ''Please check your settings.'')
                 None notificationId w
           | Success d \<Rightarrow>
               if length urls = 1 then
                 notify ''Download added'' (orElse filename' (Some (urls ! 0))) None notificationId w
               else
                 notify (decimal (length urls) @ '' downloads added'') None None notificationId w
           | Failure code \<Rightarrow>
               notify ''Failed to add download''
                 (Some (errorMessageFromCode imports code ''DownloadStation.Task''))
                 None notificationId w))"

definition notifyUnexpectedError_tasks :: "nat option \<Rightarrow> js_value \<Rightarrow> (unit, 'r world) promise" where
  "notifyUnexpectedError_tasks notificationId error w =
     (Resolved (),
      snd (notify ''Failed to add download''
             (Some ''Unexpected error; please check your settings and try again'')
             None notificationId w))"

text \<open>
  The \<open>reduce\<close> that splits the resolved tasks into files and URIs.
\<close>

definition partitionTasks :: "task list \<Rightarrow> FormFile list \<times> string list" where
  "partitionTasks resolved' =
     foldl (\<lambda>(file, uri) task. case task of File f \<Rightarrow> (file @ [f], uri) | Uri u \<Rightarrow> (file, uri @ [u]))
       ([], []) resolved'"

text \<open>
  \<open>addDownloadTasksAndPoll\<close>: a list of URLs. \<open>pollTasks\<close> is imported from a module
  that is not among the sources; the \<open>pollTasks\<close> of the actions module stands for it.
\<close>

definition addDownloadTasksAndPoll ::
  "Imports \<Rightarrow> Environment \<Rightarrow> 'r ApiClient \<Rightarrow> string list \<Rightarrow> string option \<Rightarrow> int \<Rightarrow> int \<Rightarrow>
   (unit, 'r world) promise" where
  "addDownloadTasksAndPoll imports env api urls path nowInitiated nowCompleted w0 =
     (if length urls > 0 then
        (let (notificationId, w) =
               (if length urls = 1 then notify ''Adding download...'' (Some (urls ! 0)) None None w0
                else notify (''Adding '' @ decimal (length urls) @ '' downloads...'') None None None w0);
             destination = destinationOf path;
             pollOnResponse = (\<lambda>_. pollTasks imports api nowInitiated nowCompleted)
         in catchP
              (thenP
                 (settled (partitionPromises
                    (map rejectUnknownUrls (map (maybeMapUrlToFile env) urls))))
                 (\<lambda>accumulator.
                    if length (resolved accumulator) = 0 then resolve ()
                    else
                      (let (file, uri) = partitionTasks (resolved accumulator)
                       in thenP
                            (doCreateTask api \<lparr>files = file, uri = uri, destination = destination\<rparr>)
                            pollOnResponse)))
              (notifyUnexpectedError_tasks (Some notificationId)) w)
      else
        (Resolved (),
         snd (notify ''Failed to add download'' (Some ''No URL to download given'') None None w0)))"

text \<open>
  Inputs for the examples: a client that accepts every request, no network, a site that
  serves a torrent file, and one whose download times out.
\<close>

definition acceptingClient :: "unit ApiClient" where
  "acceptingClient =
     \<lparr>Auth_Logout = (\<lambda>r. r),
      Task_List = (\<lambda>options r. (Resolved (Success []), r)),
      Task_Create = (\<lambda>options r. (Resolved (Success ()), r))\<rparr>"

definition refusingClient :: "unit ApiClient" where
  "refusingClient =
     \<lparr>Auth_Logout = (\<lambda>r. r),
      Task_List = (\<lambda>options r. (Resolved (Success []), r)),
      Task_Create = (\<lambda>options r. (Resolved (Failure 403), r))\<rparr>"

definition offline :: Environment where
  "offline =
     \<lparr>Axios_head = (\<lambda>url. Rejected (JsObject True (Some ''Network Error'') None)),
      Axios_get = (\<lambda>url. Rejected (JsObject True (Some ''Network Error'') None)),
      Number = (\<lambda>s. NaN)\<rparr>"



text \<open>
  The notions of the claims. A terminal notification replaces the first one and reports
  success or failure.
\<close>

definition spec_terminal :: "nat \<Rightarrow> Notification \<Rightarrow> bool" where
  "spec_terminal nid n =
     (shownId n = nid \<and> (shownType n = Some ''success'' \<or> shownType n = Some ''failure''))"

definition spec_reportsSuccess :: "Notification \<Rightarrow> bool" where
  "spec_reportsSuccess n = (shownType n = Some ''success'')"






text \<open>
  What \<open>addDownloadTasksAndPoll\<close> has before it creates the task: the first
  notification, the tasks that resolved, and the request built from them.
\<close>

definition spec_adding :: "string list \<Rightarrow> nat \<Rightarrow> Notification" where
  "spec_adding urls nid =
     (if length urls = 1 then
        \<lparr>shownTitle = ''Adding download...'', shownMessage = Some (urls ! 0), shownType = None,
         shownId = nid\<rparr>
      else
        \<lparr>shownTitle = ''Adding '' @ decimal (length urls) @ '' downloads...'', shownMessage = None,
         shownType = None, shownId = nid\<rparr>)"

definition resolvedTasks :: "Environment \<Rightarrow> string list \<Rightarrow> task list" where
  "resolvedTasks env urls =
     spec_resolvedValues (map rejectUnknownUrls (map (maybeMapUrlToFile env) urls))"

definition createRequest :: "Environment \<Rightarrow> string list \<Rightarrow> string option \<Rightarrow> TaskCreateRequest" where
  "createRequest env urls path =
     \<lparr>files = fst (partitionTasks (resolvedTasks env urls)),
      uri = snd (partitionTasks (resolvedTasks env urls)),
      destination = destinationOf path\<rparr>"

definition added :: "string list \<Rightarrow> 'r world \<Rightarrow> 'r world" where
  "added urls w = w\<lparr>notifications := notifications w @ [spec_adding urls (length (notifications w))]\<rparr>"

subsection \<open>Properties of the two flows\<close>

text \<open>
  What each step leaves alone: a notification adds no remote call, and a remote call or
  a poll shows no notification.
\<close>

lemma notify_notifications:
  "notifications (snd (notify t m ty i w)) =
     notifications w @
       [\<lparr>shownTitle = t, shownMessage = m, shownType = ty,
         shownId = (case i of Some n \<Rightarrow> n | None \<Rightarrow> length (notifications w))\<rparr>]"
  by (simp add: notify_def Let_def)

lemma notify_calls: "calls (snd (notify t m ty i w)) = calls w"
  by (simp add: notify_def Let_def)

lemma notify_id:
  "fst (notify t m ty i w) = (case i of Some n \<Rightarrow> n | None \<Rightarrow> length (notifications w))"
  by (simp add: notify_def Let_def)

lemma api_Task_Create_notifications:
  "notifications (snd (api_Task_Create api options w)) = notifications w"
  by (simp add: api_Task_Create_def split: prod.splits)

lemma doCreateTask_notifications: "notifications (snd (doCreateTask api options w)) = notifications w"
  unfolding doCreateTask_def wrapInNoPermissionsRetry_result
  by (simp add: api_Task_Create_notifications api_Auth_Logout_def)

lemma pollTasks_notifications:
  "notifications (snd (pollTasks imp api t0 t1 w)) = notifications w"
proof -
  obtain out w' where d: "doTaskPoll api () (initiated t0 w) = (out, w')" by force
  have n: "notifications w' = notifications w"
    using doTaskPoll_notifications[of api "initiated t0 w"] d by (simp add: initiated_def)
  show ?thesis unfolding pollTasks_unfold d using n
    by (cases out) simp_all
qed

lemma pollTasks_calls:
  "\<exists>cs. calls (snd (pollTasks imp api t0 t1 w)) = calls w @ cs \<and>
        (\<forall>options. Task_Create_call options \<notin> set cs)"
proof -
  obtain out w' where d: "doTaskPoll api () (initiated t0 w) = (out, w')" by force
  have c: "calls w' = calls (initiated t0 w) @
       (if spec_noPermissions (fst (api_Task_List api TASK_POLL_OPTIONS (initiated t0 w)))
        then [Task_List_call TASK_POLL_OPTIONS, Auth_Logout_call, Task_List_call TASK_POLL_OPTIONS]
        else [Task_List_call TASK_POLL_OPTIONS])"
    using doTaskPoll_calls[of api "initiated t0 w"] d by simp
  have "calls (snd (pollTasks imp api t0 t1 w)) = calls w'"
    unfolding pollTasks_unfold d by (cases out) simp_all
  with c show ?thesis by (auto simp: initiated_def)
qed

lemma api_Task_Create_storage: "storage (snd (api_Task_Create api options w)) = storage w"
  by (simp add: api_Task_Create_def split: prod.splits)

lemma catchP_settled:
  "catchP (thenP (settled out) f) h w =
     (case out of Resolved a \<Rightarrow> catchP (f a) h w | Rejected e \<Rightarrow> h e w)"
  by (simp add: catchP_def thenP_def settled_def split: outcome.splits)

lemma catchP_reject: "catchP (reject e) h w = h e w"
  by (simp add: catchP_def reject_def)

lemma notifyTaskAddResult_notifications:
  "\<exists>t. notifications (snd (notifyTaskAddResult imp url nid f result w)) = notifications w @ [t] \<and>
       spec_terminal nid t \<and> (spec_reportsSuccess t = success result)"
  by (cases result)
     (simp_all add: notifyTaskAddResult_def notify_notifications spec_terminal_def
        spec_reportsSuccess_def success_def)

lemma notifyUnexpectedError_notifications:
  "\<exists>t. notifications (snd (notifyUnexpectedError nid e w)) = notifications w @ [t] \<and>
       spec_terminal nid t \<and> \<not> spec_reportsSuccess t"
  by (simp add: notifyUnexpectedError_def notify_notifications spec_terminal_def spec_reportsSuccess_def)

text \<open>
  The chain \<open>doCreateTask(...).then(notifyTaskAddResult(...)).then(pollOnResponse)\<close> under
  \<open>.catch(notifyUnexpectedError)\<close>: the request is sent first, and exactly one
  notification follows, which reports success if and only if the response is successful.
\<close>

lemma create_notify_poll:
  "catchP
     (thenP (thenP (doCreateTask api req) (notifyTaskAddResult imp url nid f))
        (\<lambda>_. pollTasks imp api t0 t1))
     (notifyUnexpectedError nid) w =
   (case doCreateTask api req w of
      (Resolved result, w1) \<Rightarrow>
        pollTasks imp api t0 t1 (snd (notifyTaskAddResult imp url nid f result w1))
    | (Rejected e, w1) \<Rightarrow> notifyUnexpectedError nid e w1)"
proof (cases "doCreateTask api req w")
  case (Pair out w1)
  show ?thesis
  proof (cases out)
    case (Resolved result)
    obtain w2 where n: "notifyTaskAddResult imp url nid f result w1 = (Resolved (), w2)"
      by (simp add: notifyTaskAddResult_def)
    obtain w3 where p: "pollTasks imp api t0 t1 w2 = (Resolved (), w3)"
      using pollTasks_resolves[of imp api t0 t1 w2] by (cases "pollTasks imp api t0 t1 w2") simp
    show ?thesis using Pair Resolved n p by (simp add: catchP_def thenP_def)
  next
    case (Rejected e)
    then show ?thesis using Pair by (simp add: catchP_def thenP_def)
  qed
qed

lemma create_notify_poll_notifications:
  "\<exists>t. notifications
          (snd (catchP
                  (thenP (thenP (doCreateTask api req) (notifyTaskAddResult imp url nid f))
                     (\<lambda>_. pollTasks imp api t0 t1))
                  (notifyUnexpectedError nid) w)) = notifications w @ [t] \<and>
       spec_terminal nid t \<and>
       (spec_reportsSuccess t =
          (case fst (doCreateTask api req w) of Resolved result \<Rightarrow> success result | Rejected e \<Rightarrow> False))"
proof (cases "doCreateTask api req w")
  case (Pair out w1)
  have n1: "notifications w1 = notifications w"
    using doCreateTask_notifications[of api req w] Pair by simp
  show ?thesis
  proof (cases out)
    case (Resolved result)
    from notifyTaskAddResult_notifications[of imp url nid f result w1]
    obtain t where t: "notifications (snd (notifyTaskAddResult imp url nid f result w1)) = notifications w1 @ [t]"
      "spec_terminal nid t" "spec_reportsSuccess t = success result" by blast
    show ?thesis
      unfolding create_notify_poll using Pair Resolved t n1
      by (simp add: pollTasks_notifications)
  next
    case (Rejected e)
    from notifyUnexpectedError_notifications[of nid e w1]
    obtain t where t: "notifications (snd (notifyUnexpectedError nid e w1)) = notifications w1 @ [t]"
      "spec_terminal nid t" "\<not> spec_reportsSuccess t" by blast
    show ?thesis
      unfolding create_notify_poll using Pair Rejected t n1 by simp
  qed
qed

text \<open>
  Every invocation of \<open>addDownloadTaskAndPoll\<close> shows \<open>Adding download...\<close> and then one
  notification of success or failure under the same id.
\<close>

lemma addDownloadTaskAndPoll_terminal:
  "\<exists>t. notifications (snd (addDownloadTaskAndPoll imp env api url path t0 t1 (w0 :: 'r world))) =
          notifications w0 @
            [\<lparr>shownTitle = ''Adding download...'', shownMessage = Some url, shownType = None,
              shownId = length (notifications w0)\<rparr>, t] \<and>
       spec_terminal (length (notifications w0)) t"
proof -
  define nid where "nid = length (notifications w0)"
  define w :: "'r world" where "w = snd (notify ''Adding download...'' (Some url) None None w0)"
  have n: "notify ''Adding download...'' (Some url) None None w0 = (nid, w)"
    by (simp add: nid_def w_def notify_def Let_def)
  have nw: "notifications w =
      notifications w0 @
        [\<lparr>shownTitle = ''Adding download...'', shownMessage = Some url, shownType = None,
          shownId = length (notifications w0)\<rparr>]"
    by (simp add: w_def notify_notifications)
  define P :: "'r world \<Rightarrow> bool" where "P = (\<lambda>w'. \<exists>t. notifications w' = notifications w @ [t] \<and> spec_terminal nid t)"
  have leaf: "P (snd (catchP
                  (thenP (thenP (doCreateTask api req) (notifyTaskAddResult imp url nid f))
                     (\<lambda>_. pollTasks imp api t0 t1))
                  (notifyUnexpectedError nid) w))" for req f
    unfolding P_def using create_notify_poll_notifications[where imp = imp and api = api and req = req
        and url = url and nid = nid and f = f and ?t0.0 = t0 and ?t1.0 = t1 and w = w] by blast
  have unexpected: "P (snd (notifyUnexpectedError nid e w))" for e
    unfolding P_def using notifyUnexpectedError_notifications[where nid = nid and e = e and w = w] by blast
  have failure: "P (snd (notify ''Failed to add download'' m (Some ''failure'') (Some nid) w))" for m
    unfolding P_def by (simp add: notify_notifications spec_terminal_def)
  have "P (snd (addDownloadTaskAndPoll imp env api url path t0 t1 w0))"
  proof (cases "url = []")
    case True
    then show ?thesis using failure n by (simp add: addDownloadTaskAndPoll_def)
  next
    case nonempty: False
    show ?thesis
    proof (cases "startsWithAnyProtocol url (protocols_AUTO_DOWNLOAD_TORRENT_FILE_PROTOCOLS imp)")
      case auto: True
      show ?thesis
      proof (cases "Axios_head env url")
        case (Rejected e)
        then show ?thesis using nonempty auto unexpected n
          by (simp add: addDownloadTaskAndPoll_def catchP_settled)
      next
        case (Resolved response)
        show ?thesis
        proof (cases "headers response ''content-type''")
          case None
          then show ?thesis using nonempty auto Resolved unexpected n
            by (simp add: addDownloadTaskAndPoll_def catchP_settled catchP_reject)
        next
          case (Some header)
          show ?thesis
          proof (cases "Axios_get env url")
            case get: (Rejected e)
            then show ?thesis using nonempty auto Resolved Some unexpected leaf n
              by (simp add: addDownloadTaskAndPoll_def catchP_settled Let_def)
          next
            case get: (Resolved r)
            then show ?thesis using nonempty auto Resolved Some leaf n
              by (simp add: addDownloadTaskAndPoll_def catchP_settled Let_def)
          qed
        qed
      qed
    next
      case notauto: False
      show ?thesis
      proof (cases "startsWithAnyProtocol url (protocols_ALL_DOWNLOADABLE_PROTOCOLS imp)")
        case True
        then show ?thesis using nonempty notauto leaf n
          by (simp add: addDownloadTaskAndPoll_def)
      next
        case False
        then show ?thesis using nonempty notauto failure n
          by (simp add: addDownloadTaskAndPoll_def)
      qed
    qed
  qed
  then show ?thesis unfolding P_def nw nid_def by simp
qed

text \<open>
  A URL that is not empty and starts with none of the protocols: \<open>addDownloadTaskAndPoll\<close>
  sends no request and reports that the URL must start with one of the protocols.
\<close>

lemma addDownloadTaskAndPoll_unknown_protocol:
  assumes "url \<noteq> []"
    and "\<not> startsWithAnyProtocol url (protocols_AUTO_DOWNLOAD_TORRENT_FILE_PROTOCOLS imp)"
    and "\<not> startsWithAnyProtocol url (protocols_ALL_DOWNLOADABLE_PROTOCOLS imp)"
  shows "calls (snd (addDownloadTaskAndPoll imp env api url path t0 t1 w0)) = calls w0 \<and>
         notifications (snd (addDownloadTaskAndPoll imp env api url path t0 t1 w0)) =
           notifications w0 @
             [\<lparr>shownTitle = ''Adding download...'', shownMessage = Some url, shownType = None,
               shownId = length (notifications w0)\<rparr>,
              \<lparr>shownTitle = ''Failed to add download'',
               shownMessage = Some (''URL must start with one of '' @
                                join '', '' (protocols_ALL_DOWNLOADABLE_PROTOCOLS imp)),
               shownType = Some ''failure'', shownId = length (notifications w0)\<rparr>]"
  using assms
  by (simp add: addDownloadTaskAndPoll_def notify_def Let_def)

lemma startsWithAnyProtocol_auto_downloadable:
  "startsWithAnyProtocol url AUTO_DOWNLOAD_TORRENT_FILE_PROTOCOLS \<Longrightarrow>
   startsWithAnyProtocol url DOWNLOADABLE_PROTOCOLS"
  by (auto simp: startsWithAnyProtocol_def AUTO_DOWNLOAD_TORRENT_FILE_PROTOCOLS_def
      DOWNLOADABLE_PROTOCOLS_def)

lemma maybeMapUrlToFile_other_protocol:
  "\<not> startsWithAnyProtocol url AUTO_DOWNLOAD_TORRENT_FILE_PROTOCOLS \<Longrightarrow>
   maybeMapUrlToFile env url = Resolved (Uri url)"
  by (simp add: maybeMapUrlToFile_def)

lemma maybeMapUrlToFile_uri: "maybeMapUrlToFile env url = Resolved (Uri u) \<Longrightarrow> u = url"
  by (auto simp: maybeMapUrlToFile_def thenO_def Let_def split: if_splits outcome.splits option.splits)

lemma rejectUnknownUrls_uri:
  "rejectUnknownUrls p = Resolved (Uri u) \<Longrightarrow>
   p = Resolved (Uri u) \<and> startsWithAnyProtocol u DOWNLOADABLE_PROTOCOLS"
  by (auto simp: rejectUnknownUrls_def thenO_def split: outcome.splits task.splits if_splits)

lemma rejectUnknownUrls_unknown:
  "\<not> startsWithAnyProtocol url DOWNLOADABLE_PROTOCOLS \<Longrightarrow>
   rejectUnknownUrls (Resolved (Uri url)) =
     Rejected (JsString (''URL '' @ [CHR 0x27] @ url @ [CHR 0x27] @
                 '' must start with one of '' @ join '', '' DOWNLOADABLE_PROTOCOLS))"
  by (simp add: rejectUnknownUrls_def thenO_def)

lemma catchP_resolve: "catchP (resolve a) h w = (Resolved a, w)"
  by (simp add: catchP_def resolve_def)

text \<open>
  The same URL given to \<open>addDownloadTasksAndPoll\<close>: the flow ends in the state that the
  first notification left, without a request and without a second notification.
\<close>

lemma addDownloadTasksAndPoll_unknown_protocol:
  assumes "\<not> startsWithAnyProtocol url DOWNLOADABLE_PROTOCOLS"
  shows "addDownloadTasksAndPoll imp env api [url] path t0 t1 w0 =
           (Resolved (), snd (notify ''Adding download...'' (Some url) None None w0))"
proof -
  from assms have "\<not> startsWithAnyProtocol url AUTO_DOWNLOAD_TORRENT_FILE_PROTOCOLS"
    using startsWithAnyProtocol_auto_downloadable by blast
  then have m: "maybeMapUrlToFile env url = Resolved (Uri url)"
    by (rule maybeMapUrlToFile_other_protocol)
  have pp: "partitionPromises [rejectUnknownUrls (maybeMapUrlToFile env url)] =
              Resolved \<lparr>resolved = [], rejected = [newError]\<rparr>"
    by (simp add: m rejectUnknownUrls_unknown[OF assms] partitionPromises_result isErrorInstance_def)
  obtain nid w where n: "notify ''Adding download...'' (Some url) None None w0 = (nid, w)"
    by force
  show ?thesis
    by (simp add: addDownloadTasksAndPoll_def pp n catchP_settled catchP_resolve)
qed

lemma spec_resolvedValues_mem:
  "v \<in> set (spec_resolvedValues ps) \<longleftrightarrow> Resolved v \<in> set ps"
  by (induction ps rule: spec_resolvedValues.induct) auto

lemma partitionTasks_foldl:
  "foldl (\<lambda>(file, uri) task. case task of File f \<Rightarrow> (file @ [f], uri) | Uri u \<Rightarrow> (file, uri @ [u]))
     (fs, us) ts =
   (fs @ List.map_filter (\<lambda>t. case t of File f \<Rightarrow> Some f | Uri u \<Rightarrow> None) ts,
    us @ List.map_filter (\<lambda>t. case t of File f \<Rightarrow> None | Uri u \<Rightarrow> Some u) ts)"
  by (induction ts arbitrary: fs us) (auto split: task.splits)

lemma partitionTasks_uri: "set (snd (partitionTasks ts)) = {u. Uri u \<in> set ts}"
  unfolding partitionTasks_def partitionTasks_foldl
  by (auto simp: List.map_filter_def split: task.splits)

lemma resolved_uri_downloadable:
  assumes "Uri u \<in> set (spec_resolvedValues (map rejectUnknownUrls (map (maybeMapUrlToFile env) urls)))"
  shows "u \<in> set urls \<and> startsWithAnyProtocol u DOWNLOADABLE_PROTOCOLS"
proof -
  from assms obtain url where url: "url \<in> set urls"
    and r: "rejectUnknownUrls (maybeMapUrlToFile env url) = Resolved (Uri u)"
    by (auto simp: spec_resolvedValues_mem)
  from rejectUnknownUrls_uri[OF r] maybeMapUrlToFile_uri[of env url u] url
  show ?thesis by auto
qed














text \<open>
  \<open>addDownloadTasksAndPoll\<close> on a list that is not empty: no request when no task
  resolved; otherwise one request for the resolved tasks, followed by a poll when it
  resolves and by the notification of an unexpected error when it rejects. Every URI of
  the request is a URL of the list that starts with a downloadable protocol.
\<close>

lemma addDownloadTasksAndPoll_unfold:
  assumes "urls \<noteq> []"
  shows "addDownloadTasksAndPoll imp env api urls path t0 t1 w0 =
           (if resolvedTasks env urls = [] then (Resolved (), added urls w0)
            else
              (case doCreateTask api (createRequest env urls path) (added urls w0) of
                 (Resolved result, w1) \<Rightarrow> pollTasks imp api t0 t1 w1
               | (Rejected e, w1) \<Rightarrow>
                   notifyUnexpectedError_tasks (Some (length (notifications w0))) e w1))"
proof -
  have n: "(if length urls = 1 then notify ''Adding download...'' (Some (urls ! 0)) None None w0
            else notify (''Adding '' @ decimal (length urls) @ '' downloads...'') None None None w0) =
           (length (notifications w0), added urls w0)"
    by (simp add: notify_def Let_def added_def spec_adding_def)
  have pp: "partitionPromises (map rejectUnknownUrls (map (maybeMapUrlToFile env) urls)) =
      Resolved \<lparr>resolved = resolvedTasks env urls,
                rejected = spec_rejectionErrors (map rejectUnknownUrls (map (maybeMapUrlToFile env) urls))\<rparr>"
    by (simp only: partitionPromises_result resolvedTasks_def)
  have len: "(0 < length urls) = True" using assms by simp
  show ?thesis
  proof (cases "resolvedTasks env urls = []")
    case True
    then show ?thesis
      unfolding addDownloadTasksAndPoll_def len n pp
      by (simp add: catchP_settled catchP_resolve)
  next
    case False
    obtain out w1 where d: "doCreateTask api (createRequest env urls path) (added urls w0) = (out, w1)"
      by force
    obtain fs us where pt: "partitionTasks (resolvedTasks env urls) = (fs, us)" by force
    have req: "createRequest env urls path = \<lparr>files = fs, uri = us, destination = destinationOf path\<rparr>"
      by (simp add: createRequest_def pt)
    show ?thesis
    proof (cases out)
      case (Resolved result)
      obtain w2 where p: "pollTasks imp api t0 t1 w1 = (Resolved (), w2)"
        using pollTasks_resolves[of imp api t0 t1 w1] by (cases "pollTasks imp api t0 t1 w1") simp
      show ?thesis
        unfolding addDownloadTasksAndPoll_def len n pp
        using False d Resolved p pt req
        by (simp add: catchP_settled) (simp add: catchP_def thenP_def)
    next
      case (Rejected e)
      show ?thesis
        unfolding addDownloadTasksAndPoll_def len n pp
        using False d Rejected pt req
        by (simp add: catchP_settled) (simp add: catchP_def thenP_def)
    qed
  qed
qed

lemma addDownloadTasksAndPoll_notifications:
  assumes "urls \<noteq> []"
  shows "notifications (snd (addDownloadTasksAndPoll imp env api urls path t0 t1 w0)) =
           notifications w0 @ spec_adding urls (length (notifications w0)) #
             (if resolvedTasks env urls \<noteq> [] \<and>
                 (\<exists>e. fst (doCreateTask api (createRequest env urls path) (added urls w0)) = Rejected e)
              then [\<lparr>shownTitle = ''Failed to add download'',
                     shownMessage = Some ''Unexpected error; please check your settings and try again'',
                     shownType = None, shownId = length (notifications w0)\<rparr>]
              else [])"
proof (cases "resolvedTasks env urls = []")
  case True
  then show ?thesis
    unfolding addDownloadTasksAndPoll_unfold[OF assms] by (simp add: added_def)
next
  case False
  obtain out w1 where d: "doCreateTask api (createRequest env urls path) (added urls w0) = (out, w1)"
    by force
  have n1: "notifications w1 = notifications (added urls w0)"
    using doCreateTask_notifications[of api "createRequest env urls path" "added urls w0"] d by simp
  show ?thesis
    unfolding addDownloadTasksAndPoll_unfold[OF assms]
    using False d n1
    by (cases out)
       (simp_all add: pollTasks_notifications notifyUnexpectedError_tasks_def notify_notifications
          added_def)
qed

lemma createRequest_uri:
  "u \<in> set (uri (createRequest env urls path)) \<Longrightarrow>
   u \<in> set urls \<and> startsWithAnyProtocol u DOWNLOADABLE_PROTOCOLS"
  using resolved_uri_downloadable[of u env urls]
  by (simp add: createRequest_def partitionTasks_uri resolvedTasks_def)

lemma addDownloadTasksAndPoll_calls:
  "\<exists>cs. calls (snd (addDownloadTasksAndPoll imp env api urls path t0 t1 w0)) = calls w0 @ cs \<and>
        (\<forall>req. Task_Create_call req \<in> set cs \<longrightarrow> req = createRequest env urls path)"
proof (cases "urls = []")
  case True
  then show ?thesis by (simp add: addDownloadTasksAndPoll_def notify_calls)
next
  case ne: False
  show ?thesis
  proof (cases "resolvedTasks env urls = []")
    case True
    then show ?thesis
      unfolding addDownloadTasksAndPoll_unfold[OF ne] by (simp add: added_def)
  next
    case False
    obtain out w1 where d: "doCreateTask api (createRequest env urls path) (added urls w0) = (out, w1)"
      by force
    have c1: "\<exists>cs. calls w1 = calls w0 @ cs \<and>
                (\<forall>req. Task_Create_call req \<in> set cs \<longrightarrow> req = createRequest env urls path)"
      using doCreateTask_calls[of api "createRequest env urls path" "added urls w0"] d
      by (auto simp: added_def)
    then obtain cs where cs: "calls w1 = calls w0 @ cs"
      "\<forall>req. Task_Create_call req \<in> set cs \<longrightarrow> req = createRequest env urls path" by blast
    show ?thesis
    proof (cases out)
      case (Resolved result)
      from pollTasks_calls[of imp api t0 t1 w1]
      obtain cs' where cs': "calls (snd (pollTasks imp api t0 t1 w1)) = calls w1 @ cs'"
        "\<forall>options. Task_Create_call options \<notin> set cs'" by blast
      show ?thesis
        unfolding addDownloadTasksAndPoll_unfold[OF ne]
        using False d Resolved cs cs' by auto
    next
      case (Rejected e)
      show ?thesis
        unfolding addDownloadTasksAndPoll_unfold[OF ne]
        using False d Rejected cs
        by (auto simp: notifyUnexpectedError_tasks_def notify_calls)
    qed
  qed
qed

subsection \<open>The claims about the submission\<close>

text \<open>
  Claim C4 holds of \<open>addDownloadTaskAndPoll\<close> (lemma
  \<open>addDownloadTaskAndPoll_unknown_protocol\<close>: no request, and a failure notification
  that names the protocols). In \<open>addDownloadTasksAndPoll\<close> the URL is left out of the
  request (lemmas \<open>addDownloadTasksAndPoll_calls\<close> and \<open>createRequest_uri\<close>), but the
  rejection that carries the message is replaced by a new \<open>Error\<close> in
  \<open>partitionPromises\<close> and the \<open>rejected\<close> list is never read: for the URL
  \<open>foo://bar\<close> the flow ends with the notification \<open>Adding download...\<close> alone, without
  a request and without a report of the failure.
\<close>

theorem unknown_protocol_failure_unreported:
  "\<not> startsWithAnyProtocol ''foo://bar'' DOWNLOADABLE_PROTOCOLS \<and>
   addDownloadTasksAndPoll someImports offline acceptingClient [''foo://bar''] None 10 20
     (clearedWorld ()) =
     (Resolved (),
      (clearedWorld ())\<lparr>notifications :=
         [\<lparr>shownTitle = ''Adding download...'', shownMessage = Some ''foo://bar'',
           shownType = None, shownId = 0\<rparr>]\<rparr>)"
  by code_simp

text \<open>
  Claim C7 holds of \<open>addDownloadTaskAndPoll\<close> (lemma
  \<open>addDownloadTaskAndPoll_terminal\<close>: every invocation ends with a notification of
  success or failure). \<open>addDownloadTasksAndPoll\<close> never calls its
  \<open>notifyTaskAddResult\<close>: when the task is created, and when the response is
  unsuccessful, the only notification is \<open>Adding download...\<close> (lemma
  \<open>addDownloadTasksAndPoll_notifications\<close>: a second notification is shown only when
  the request rejects).
\<close>

theorem task_add_result_unreported:
  "notifications
     (snd (addDownloadTasksAndPoll someImports offline acceptingClient
             [''magnet:?xt=urn:btih:abc''] None 10 20 (clearedWorld ()))) =
     [\<lparr>shownTitle = ''Adding download...'', shownMessage = Some ''magnet:?xt=urn:btih:abc'',
       shownType = None, shownId = 0\<rparr>] \<and>
   calls
     (snd (addDownloadTasksAndPoll someImports offline acceptingClient
             [''magnet:?xt=urn:btih:abc''] None 10 20 (clearedWorld ()))) =
     [Task_Create_call \<lparr>files = [], uri = [''magnet:?xt=urn:btih:abc''], destination = None\<rparr>,
      Task_List_call TASK_POLL_OPTIONS] \<and>
   notifications
     (snd (addDownloadTasksAndPoll someImports offline refusingClient
             [''magnet:?xt=urn:btih:abc''] None 10 20 (clearedWorld ()))) =
     [\<lparr>shownTitle = ''Adding download...'', shownMessage = Some ''magnet:?xt=urn:btih:abc'',
       shownType = None, shownId = 0\<rparr>]"
  by code_simp




end
